theory Spec2Isabelle
  imports Main
begin

section \<open>Data model of backend/server.py\<close>

datatype UserRole = ORGANIZER | PARTICIPANT | JUDGE

datatype EventStatus =
  DRAFT | ACTIVE | SUBMISSIONS_OPEN | SUBMISSIONS_CLOSED | JUDGING | COMPLETED

text \<open>A \<^verbatim>\<open>datetime\<close> is a number of seconds since the epoch (the resolution of the
  \<^verbatim>\<open>exp\<close> claim of a token).\<close>

type_synonym datetime = int

record User =
  u_id :: string
  u_email :: string
  u_name :: string
  u_role :: UserRole
  u_created_at :: datetime
  u_is_active :: bool

text \<open>A document of \<^verbatim>\<open>db.users\<close>: \<^verbatim>\<open>user.dict()\<close> with the key
  \<^verbatim>\<open>password\<close> added by \<^verbatim>\<open>register\<close>.\<close>

record UserDoc = User +
  password :: string

record UserCreate =
  uc_email :: string
  uc_name :: string
  uc_password :: string
  uc_role :: UserRole

record UserLogin =
  ul_email :: string
  ul_password :: string

record UserResponse =
  r_id :: string
  r_email :: string
  r_name :: string
  r_role :: string
  r_created_at :: datetime

record Event =
  e_id :: string
  e_title :: string
  e_description :: string
  e_organizer_id :: string
  e_status :: EventStatus
  e_start_date :: datetime
  e_end_date :: datetime
  e_submission_deadline :: datetime
  e_max_team_size :: int
  e_tracks :: "string list"
  e_prizes :: "string list"
  e_rules :: string
  e_created_at :: datetime

record EventCreate =
  ec_title :: string
  ec_description :: string
  ec_start_date :: datetime
  ec_end_date :: datetime
  ec_submission_deadline :: datetime
  ec_max_team_size :: int
  ec_tracks :: "string list"
  ec_prizes :: "string list"
  ec_rules :: string

record Team =
  t_id :: string
  t_name :: string
  t_event_id :: string
  t_leader_id :: string
  t_members :: "string list"
  t_created_at :: datetime

record TeamCreate =
  tc_name :: string
  tc_event_id :: string

record Submission =
  s_id :: string
  s_team_id :: string
  s_event_id :: string
  s_title :: string
  s_description :: string
  s_github_url :: "string option"
  s_demo_url :: "string option"
  s_video_url :: "string option"
  s_submitted_at :: datetime

record SubmissionCreate =
  sc_title :: string
  sc_description :: string
  sc_github_url :: "string option"
  sc_demo_url :: "string option"
  sc_video_url :: "string option"

text \<open>The four collections of the database, each in insertion order: \<^verbatim>\<open>insert_one\<close>
  appends, \<^verbatim>\<open>find_one\<close> returns the first document that matches.\<close>

record db =
  users :: "UserDoc list"
  events :: "Event list"
  teams :: "Team list"
  submissions :: "Submission list"

definition empty_db :: db where
  "empty_db = \<lparr>users = [], events = [], teams = [], submissions = []\<rparr>"

text \<open>What a request reads from outside the database: the configured secret, the clock,
  the next \<^verbatim>\<open>uuid.uuid4()\<close>, and the bcrypt library (\<^verbatim>\<open>gensalt\<close>,
  \<^verbatim>\<open>hashpw\<close>, \<^verbatim>\<open>checkpw\<close>), which is not part of the repository and is
  left a parameter. \<^verbatim>\<open>checkpw\<close> is \<open>None\<close> where \<^verbatim>\<open>verify_password\<close> raises:
  \<^verbatim>\<open>password.encode('utf-8')\<close> on a string with a lone surrogate
  (\<^verbatim>\<open>UnicodeEncodeError\<close>, a \<^verbatim>\<open>ValueError\<close>), or the library on an argument it
  refuses.\<close>

record env =
  JWT_SECRET :: string
  utcnow :: datetime
  uuid4 :: string
  gensalt :: string
  hashpw :: "string \<Rightarrow> string \<Rightarrow> string"
  checkpw :: "string \<Rightarrow> string \<Rightarrow> bool option"

datatype error = HTTPException (status_code: nat) (detail: string) | ValueError

section \<open>Utility functions\<close>

definition JWT_EXPIRATION_HOURS :: int where
  "JWT_EXPIRATION_HOURS = 24"

definition timedelta_hours :: "int \<Rightarrow> int" where
  "timedelta_hours h = h * 3600"

definition hash_password :: "env \<Rightarrow> string \<Rightarrow> string" where
  "hash_password en pw = hashpw en pw (gensalt en)"

definition verify_password :: "env \<Rightarrow> string \<Rightarrow> string \<Rightarrow> bool option" where
  "verify_password en pw hashed = checkpw en pw hashed"

text \<open>The values of a dictionary that becomes a token payload. \<open>PIsoformat d\<close> is the string
  \<^verbatim>\<open>d.isoformat()\<close>, kept symbolic.\<close>

datatype pyval =
  PNone | PBool bool | PInt int | PStr string | PDatetime datetime | PIsoformat datetime

type_synonym pydict = "string \<rightharpoonup> pyval"

fun role_value :: "UserRole \<Rightarrow> string" where
  "role_value ORGANIZER = ''organizer''"
| "role_value PARTICIPANT = ''participant''"
| "role_value JUDGE = ''judge''"

text \<open>\<^verbatim>\<open>user.dict()\<close>.\<close>

definition User_dict :: "User \<Rightarrow> pydict" where
  "User_dict u = Map.empty
     (''id'' \<mapsto> PStr (u_id u),
      ''email'' \<mapsto> PStr (u_email u),
      ''name'' \<mapsto> PStr (u_name u),
      ''role'' \<mapsto> PStr (role_value (u_role u)),
      ''created_at'' \<mapsto> PDatetime (u_created_at u),
      ''is_active'' \<mapsto> PBool (u_is_active u))"

text \<open>\<^verbatim>\<open>User(**user_data)\<close> on a stored document: the extra key \<^verbatim>\<open>password\<close>
  is ignored.\<close>

definition User_of :: "UserDoc \<Rightarrow> User" where
  "User_of d = \<lparr>u_id = u_id d, u_email = u_email d, u_name = u_name d, u_role = u_role d,
     u_created_at = u_created_at d, u_is_active = u_is_active d\<rparr>"

definition UserResponse_of :: "User \<Rightarrow> UserResponse" where
  "UserResponse_of u = \<lparr>r_id = u_id u, r_email = u_email u, r_name = u_name u,
     r_role = role_value (u_role u), r_created_at = u_created_at u\<rparr>"

subsection \<open>The PyJWT library\<close>

text \<open>The library is not part of the repository; this is its contract for HS256. A bearer
  string is either a well-formed token, a payload signed with some key, or any other string.
  \<^verbatim>\<open>jwt.encode\<close> writes a datetime \<^verbatim>\<open>exp\<close> as its integer timestamp.
  \<^verbatim>\<open>jwt.decode\<close> checks the signature, then the \<^verbatim>\<open>exp\<close> claim when there is one:
  \<^verbatim>\<open>ExpiredSignatureError\<close> when \<^verbatim>\<open>exp <= now\<close>, and
  \<^verbatim>\<open>InvalidTokenError\<close> (the base class) for everything else.\<close>

datatype token = Token (claims: pydict) (signing_key: string) | Malformed string

datatype jwt_error = ExpiredSignatureError | InvalidTokenError

definition jwt_encode :: "pydict \<Rightarrow> string \<Rightarrow> token" where
  "jwt_encode payload key =
     Token (\<lambda>k. if k = ''exp''
                then (case payload k of Some (PDatetime d) \<Rightarrow> Some (PInt d) | v \<Rightarrow> v)
                else payload k) key"

definition jwt_decode :: "token \<Rightarrow> string \<Rightarrow> datetime \<Rightarrow> jwt_error + pydict" where
  "jwt_decode tok key now =
     (case tok of
        Malformed _ \<Rightarrow> Inl InvalidTokenError
      | Token payload k \<Rightarrow>
          if k \<noteq> key then Inl InvalidTokenError
          else (case payload ''exp'' of
                  None \<Rightarrow> Inr payload
                | Some (PInt e) \<Rightarrow> if e \<le> now then Inl ExpiredSignatureError else Inr payload
                | Some _ \<Rightarrow> Inl InvalidTokenError))"

subsection \<open>Token service\<close>

definition create_jwt_token :: "env \<Rightarrow> pydict \<Rightarrow> token" where
  "create_jwt_token en user_data =
     (let serializable_data =
            (\<lambda>key. map_option
               (\<lambda>value. case value of PDatetime d \<Rightarrow> PIsoformat d | _ \<Rightarrow> value)
               (user_data key));
          payload = serializable_data
            (''exp'' \<mapsto> PDatetime (utcnow en + timedelta_hours JWT_EXPIRATION_HOURS))
      in jwt_encode payload (JWT_SECRET en))"

definition decode_jwt_token :: "env \<Rightarrow> token \<Rightarrow> error + pydict" where
  "decode_jwt_token en tok =
     (case jwt_decode tok (JWT_SECRET en) (utcnow en) of
        Inr payload \<Rightarrow> Inr payload
      | Inl ExpiredSignatureError \<Rightarrow> Inl (HTTPException 401 ''Token expired'')
      | Inl InvalidTokenError \<Rightarrow> Inl (HTTPException 401 ''Invalid token''))"

subsection \<open>Authorization guard\<close>

text \<open>Python's truth value of \<^verbatim>\<open>payload.get('id')\<close>.\<close>

fun truthy :: "pyval option \<Rightarrow> bool" where
  "truthy None = False"
| "truthy (Some PNone) = False"
| "truthy (Some (PBool b)) = b"
| "truthy (Some (PInt i)) = (i \<noteq> 0)"
| "truthy (Some (PStr s)) = (s \<noteq> [])"
| "truthy (Some (PDatetime d)) = True"
| "truthy (Some (PIsoformat d)) = True"

text \<open>The body of the \<^verbatim>\<open>try\<close> block of \<^verbatim>\<open>get_current_user\<close>.\<close>

definition get_current_user_try :: "env \<Rightarrow> db \<Rightarrow> token \<Rightarrow> error + User" where
  "get_current_user_try en d credentials =
     (case decode_jwt_token en credentials of
        Inl e \<Rightarrow> Inl e
      | Inr payload \<Rightarrow>
          (let user_id = payload ''id'' in
           if \<not> truthy user_id then Inl (HTTPException 401 ''Invalid token'')
           else (case find (\<lambda>doc. Some (PStr (u_id doc)) = user_id) (users d) of
                   None \<Rightarrow> Inl (HTTPException 401 ''User not found'')
                 | Some user_data \<Rightarrow> Inr (User_of user_data))))"

text \<open>\<^verbatim>\<open>except Exception\<close> catches every exception of the body, the
  \<^verbatim>\<open>HTTPException\<close>s it raised itself included.\<close>

definition get_current_user :: "env \<Rightarrow> db \<Rightarrow> token \<Rightarrow> error + User" where
  "get_current_user en d credentials =
     (case get_current_user_try en d credentials of
        Inl e \<Rightarrow> Inl (HTTPException 401 ''Invalid authentication'')
      | Inr u \<Rightarrow> Inr u)"

text \<open>\<^verbatim>\<open>Depends(require_role(required_roles))\<close>: the role checker, run on the result
  of \<^verbatim>\<open>get_current_user\<close>.\<close>

definition role_checker :: "UserRole list \<Rightarrow> User \<Rightarrow> error + User" where
  "role_checker required_roles current_user =
     (if u_role current_user \<notin> set required_roles
      then Inl (HTTPException 403 ''Insufficient permissions'')
      else Inr current_user)"

definition require_role :: "UserRole list \<Rightarrow> env \<Rightarrow> db \<Rightarrow> token \<Rightarrow> error + User" where
  "require_role required_roles en d credentials =
     (case get_current_user en d credentials of
        Inl e \<Rightarrow> Inl e
      | Inr current_user \<Rightarrow> role_checker required_roles current_user)"

section \<open>Routes\<close>

text \<open>A route returns what the caller gets (an error or the response) and the database it
  leaves behind. \<^verbatim>\<open>to_list(1000)\<close> keeps the first 1000 documents.\<close>

subsection \<open>Authentication routes\<close>

definition register :: "env \<Rightarrow> db \<Rightarrow> UserCreate \<Rightarrow> (error + UserResponse) \<times> db" where
  "register en d user_data =
     (case find (\<lambda>doc. u_email doc = uc_email user_data) (users d) of
        Some existing_user \<Rightarrow> (Inl (HTTPException 400 ''Email already registered''), d)
      | None \<Rightarrow>
          (let hashed_password = hash_password en (uc_password user_data);
               user = \<lparr>u_id = uuid4 en, u_email = uc_email user_data,
                        u_name = uc_name user_data, u_role = uc_role user_data,
                        u_created_at = utcnow en, u_is_active = True\<rparr>;
               user_dict = \<lparr>u_id = u_id user, u_email = u_email user, u_name = u_name user,
                             u_role = u_role user, u_created_at = u_created_at user,
                             u_is_active = u_is_active user, password = hashed_password\<rparr>
           in (Inr (UserResponse_of user), d\<lparr>users := users d @ [user_dict]\<rparr>)))"

definition login ::
  "env \<Rightarrow> db \<Rightarrow> UserLogin \<Rightarrow> (error + token \<times> string \<times> UserResponse) \<times> db" where
  "login en d login_data =
     (case find (\<lambda>doc. u_email doc = ul_email login_data) (users d) of
        None \<Rightarrow> (Inl (HTTPException 401 ''Invalid credentials''), d)
      | Some user_data \<Rightarrow>
          (case verify_password en (ul_password login_data) (password user_data) of
             None \<Rightarrow> (Inl ValueError, d)
           | Some False \<Rightarrow> (Inl (HTTPException 401 ''Invalid credentials''), d)
           | Some True \<Rightarrow>
               (let user = User_of user_data;
                    tok = create_jwt_token en (User_dict user)
                in (Inr (tok, ''bearer'', UserResponse_of user), d))))"

definition get_current_user_info :: "env \<Rightarrow> db \<Rightarrow> token \<Rightarrow> (error + UserResponse) \<times> db" where
  "get_current_user_info en d credentials =
     (case get_current_user en d credentials of
        Inl e \<Rightarrow> (Inl e, d)
      | Inr current_user \<Rightarrow> (Inr (UserResponse_of current_user), d))"

subsection \<open>Event routes\<close>

definition create_event :: "env \<Rightarrow> db \<Rightarrow> token \<Rightarrow> EventCreate \<Rightarrow> (error + Event) \<times> db" where
  "create_event en d credentials event_data =
     (case require_role [ORGANIZER] en d credentials of
        Inl e \<Rightarrow> (Inl e, d)
      | Inr current_user \<Rightarrow>
          (let event = \<lparr>e_id = uuid4 en, e_title = ec_title event_data,
                         e_description = ec_description event_data,
                         e_organizer_id = u_id current_user, e_status = DRAFT,
                         e_start_date = ec_start_date event_data,
                         e_end_date = ec_end_date event_data,
                         e_submission_deadline = ec_submission_deadline event_data,
                         e_max_team_size = ec_max_team_size event_data,
                         e_tracks = ec_tracks event_data, e_prizes = ec_prizes event_data,
                         e_rules = ec_rules event_data, e_created_at = utcnow en\<rparr>
           in (Inr event, d\<lparr>events := events d @ [event]\<rparr>)))"

definition get_events :: "db \<Rightarrow> Event list" where
  "get_events d = take 1000 (filter (\<lambda>event. e_status event \<noteq> DRAFT) (events d))"

definition get_event :: "db \<Rightarrow> string \<Rightarrow> error + Event" where
  "get_event d event_id =
     (case find (\<lambda>event. e_id event = event_id) (events d) of
        None \<Rightarrow> Inl (HTTPException 404 ''Event not found'')
      | Some event_data \<Rightarrow> Inr event_data)"

definition get_my_events :: "env \<Rightarrow> db \<Rightarrow> token \<Rightarrow> (error + Event list) \<times> db" where
  "get_my_events en d credentials =
     (case require_role [ORGANIZER] en d credentials of
        Inl e \<Rightarrow> (Inl e, d)
      | Inr current_user \<Rightarrow>
          (Inr (take 1000
                  (filter (\<lambda>event. e_organizer_id event = u_id current_user) (events d))), d))"

text \<open>\<^verbatim>\<open>update_one(filter, {"$set": ...})\<close>: the first document that matches is
  updated, and nothing when none matches.\<close>

fun update_one :: "('a \<Rightarrow> bool) \<Rightarrow> ('a \<Rightarrow> 'a) \<Rightarrow> 'a list \<Rightarrow> 'a list" where
  "update_one P f [] = []"
| "update_one P f (x # xs) = (if P x then f x # xs else x # update_one P f xs)"

definition update_event_status ::
  "env \<Rightarrow> db \<Rightarrow> token \<Rightarrow> string \<Rightarrow> EventStatus \<Rightarrow> (error + string) \<times> db" where
  "update_event_status en d credentials event_id status =
     (case require_role [ORGANIZER] en d credentials of
        Inl e \<Rightarrow> (Inl e, d)
      | Inr current_user \<Rightarrow>
          (case find (\<lambda>event. e_id event = event_id
                               \<and> e_organizer_id event = u_id current_user) (events d) of
             None \<Rightarrow> (Inl (HTTPException 404 ''Event not found or unauthorized''), d)
           | Some event \<Rightarrow>
               (Inr ''Event status updated successfully'',
                d\<lparr>events := update_one (\<lambda>event. e_id event = event_id)
                                        (\<lambda>event. event\<lparr>e_status := status\<rparr>) (events d)\<rparr>)))"

subsection \<open>Team routes\<close>

definition create_team :: "env \<Rightarrow> db \<Rightarrow> token \<Rightarrow> TeamCreate \<Rightarrow> (error + Team) \<times> db" where
  "create_team en d credentials team_data =
     (case require_role [PARTICIPANT] en d credentials of
        Inl e \<Rightarrow> (Inl e, d)
      | Inr current_user \<Rightarrow>
          (let event = find (\<lambda>event. e_id event = tc_event_id team_data) (events d) in
           if event = None \<or> e_status (the event) \<notin> set [ACTIVE, SUBMISSIONS_OPEN]
           then (Inl (HTTPException 400 ''Event not available for registration''), d)
           else
             (let existing_team =
                    find (\<lambda>team. t_event_id team = tc_event_id team_data
                                  \<and> (t_leader_id team = u_id current_user
                                     \<or> u_id current_user \<in> set (t_members team)))
                         (teams d) in
              if existing_team \<noteq> None
              then (Inl (HTTPException 400 ''Already part of a team for this event''), d)
              else
                (let team = \<lparr>t_id = uuid4 en, t_name = tc_name team_data,
                              t_event_id = tc_event_id team_data,
                              t_leader_id = u_id current_user,
                              t_members = [u_id current_user],
                              t_created_at = utcnow en\<rparr>
                 in (Inr team, d\<lparr>teams := teams d @ [team]\<rparr>)))))"

definition get_my_teams :: "env \<Rightarrow> db \<Rightarrow> token \<Rightarrow> (error + Team list) \<times> db" where
  "get_my_teams en d credentials =
     (case require_role [PARTICIPANT] en d credentials of
        Inl e \<Rightarrow> (Inl e, d)
      | Inr current_user \<Rightarrow>
          (Inr (take 1000
                  (filter (\<lambda>team. t_leader_id team = u_id current_user
                                  \<or> u_id current_user \<in> set (t_members team)) (teams d))), d))"

subsection \<open>Submission routes\<close>

definition create_submission ::
  "env \<Rightarrow> db \<Rightarrow> token \<Rightarrow> SubmissionCreate \<Rightarrow> string \<Rightarrow> (error + Submission) \<times> db" where
  "create_submission en d credentials submission_data team_id =
     (case require_role [PARTICIPANT] en d credentials of
        Inl e \<Rightarrow> (Inl e, d)
      | Inr current_user \<Rightarrow>
          (let team = find (\<lambda>team. t_id team = team_id) (teams d) in
           if team = None \<or> u_id current_user \<notin> set (t_members (the team))
           then (Inl (HTTPException 403 ''Not a member of this team''), d)
           else
             (let event = find (\<lambda>event. e_id event = t_event_id (the team)) (events d) in
              if event = None \<or> e_status (the event) \<notin> set [SUBMISSIONS_OPEN]
              then (Inl (HTTPException 400 ''Submissions not open for this event''), d)
              else
                (let existing =
                       find (\<lambda>sub. s_team_id sub = team_id
                                    \<and> s_event_id sub = t_event_id (the team))
                            (submissions d) in
                 if existing \<noteq> None
                 then (Inl (HTTPException 400 ''Submission already exists for this team''), d)
                 else
                   (let submission =
                          \<lparr>s_id = uuid4 en, s_team_id = team_id,
                           s_event_id = t_event_id (the team),
                           s_title = sc_title submission_data,
                           s_description = sc_description submission_data,
                           s_github_url = sc_github_url submission_data,
                           s_demo_url = sc_demo_url submission_data,
                           s_video_url = sc_video_url submission_data,
                           s_submitted_at = utcnow en\<rparr>
                    in (Inr submission,
                        d\<lparr>submissions := submissions d @ [submission]\<rparr>))))))"

definition get_team_submission ::
  "env \<Rightarrow> db \<Rightarrow> token \<Rightarrow> string \<Rightarrow> (error + Submission option) \<times> db" where
  "get_team_submission en d credentials team_id =
     (case get_current_user en d credentials of
        Inl e \<Rightarrow> (Inl e, d)
      | Inr current_user \<Rightarrow>
          (Inr (find (\<lambda>sub. s_team_id sub = team_id) (submissions d)), d))"

subsection \<open>Requests one after the other\<close>

text \<open>The databases the routes build from the empty one when no two requests overlap:
  each step is a whole request. The routes that only read leave the database as it is, so
  the writing routes are the steps; each request has its own clock, identifier and salt.\<close>

inductive sequential :: "db \<Rightarrow> bool" where
  init: "sequential empty_db"
| step_register: "sequential d \<Longrightarrow> sequential (snd (register en d user_data))"
| step_create_event:
    "sequential d \<Longrightarrow> sequential (snd (create_event en d credentials event_data))"
| step_update_event_status:
    "sequential d \<Longrightarrow> sequential (snd (update_event_status en d credentials event_id status))"
| step_create_team:
    "sequential d \<Longrightarrow> sequential (snd (create_team en d credentials team_data))"
| step_create_submission:
    "sequential d \<Longrightarrow>
     sequential (snd (create_submission en d credentials submission_data team_id))"

subsection \<open>Requests that overlap\<close>

text \<open>A route is a coroutine: it gives way at every \<^verbatim>\<open>await\<close>, that is at every call
  of the database, and other requests run in between; there is no lock and no unique
  index. A task is a request of a writing route at one of its database calls, with what it
  has computed so far. \<open>db_step\<close> makes that call on the database of the moment and runs
  the code up to the next call: the request raises, or waits at its next call, or returns
  (its response is left out).\<close>

datatype task =
    Register env UserCreate
  | RegisterInsert UserDoc
  | CreateEvent env token EventCreate
  | CreateEventInsert Event
  | UpdateEventStatus env token string EventStatus
  | UpdateEventStatusFind User string EventStatus
  | UpdateEventStatusUpdate string EventStatus
  | CreateTeam env token TeamCreate
  | CreateTeamFindEvent env User TeamCreate
  | CreateTeamFindExisting env User TeamCreate
  | CreateTeamInsert Team
  | CreateSubmission env token SubmissionCreate string
  | CreateSubmissionFindTeam env User SubmissionCreate string
  | CreateSubmissionFindEvent env SubmissionCreate string Team
  | CreateSubmissionFindExisting env SubmissionCreate string Team
  | CreateSubmissionInsert Submission

datatype outcome = Raise error | Await task | Return

fun db_step :: "task \<Rightarrow> db \<Rightarrow> outcome \<times> db" where
  "db_step (Register en user_data) d =
     (case find (\<lambda>doc. u_email doc = uc_email user_data) (users d) of
        Some existing_user \<Rightarrow> (Raise (HTTPException 400 ''Email already registered''), d)
      | None \<Rightarrow>
          (let hashed_password = hash_password en (uc_password user_data);
               user = \<lparr>u_id = uuid4 en, u_email = uc_email user_data,
                        u_name = uc_name user_data, u_role = uc_role user_data,
                        u_created_at = utcnow en, u_is_active = True\<rparr>;
               user_dict = \<lparr>u_id = u_id user, u_email = u_email user, u_name = u_name user,
                             u_role = u_role user, u_created_at = u_created_at user,
                             u_is_active = u_is_active user, password = hashed_password\<rparr>
           in (Await (RegisterInsert user_dict), d)))"
| "db_step (RegisterInsert user_dict) d = (Return, d\<lparr>users := users d @ [user_dict]\<rparr>)"
| "db_step (CreateEvent en credentials event_data) d =
     (case require_role [ORGANIZER] en d credentials of
        Inl e \<Rightarrow> (Raise e, d)
      | Inr current_user \<Rightarrow>
          (let event = \<lparr>e_id = uuid4 en, e_title = ec_title event_data,
                         e_description = ec_description event_data,
                         e_organizer_id = u_id current_user, e_status = DRAFT,
                         e_start_date = ec_start_date event_data,
                         e_end_date = ec_end_date event_data,
                         e_submission_deadline = ec_submission_deadline event_data,
                         e_max_team_size = ec_max_team_size event_data,
                         e_tracks = ec_tracks event_data, e_prizes = ec_prizes event_data,
                         e_rules = ec_rules event_data, e_created_at = utcnow en\<rparr>
           in (Await (CreateEventInsert event), d)))"
| "db_step (CreateEventInsert event) d = (Return, d\<lparr>events := events d @ [event]\<rparr>)"
| "db_step (UpdateEventStatus en credentials event_id status) d =
     (case require_role [ORGANIZER] en d credentials of
        Inl e \<Rightarrow> (Raise e, d)
      | Inr current_user \<Rightarrow> (Await (UpdateEventStatusFind current_user event_id status), d))"
| "db_step (UpdateEventStatusFind current_user event_id status) d =
     (case find (\<lambda>event. e_id event = event_id
                          \<and> e_organizer_id event = u_id current_user) (events d) of
        None \<Rightarrow> (Raise (HTTPException 404 ''Event not found or unauthorized''), d)
      | Some event \<Rightarrow> (Await (UpdateEventStatusUpdate event_id status), d))"
| "db_step (UpdateEventStatusUpdate event_id status) d =
     (Return, d\<lparr>events := update_one (\<lambda>event. e_id event = event_id)
                                     (\<lambda>event. event\<lparr>e_status := status\<rparr>) (events d)\<rparr>)"
| "db_step (CreateTeam en credentials team_data) d =
     (case require_role [PARTICIPANT] en d credentials of
        Inl e \<Rightarrow> (Raise e, d)
      | Inr current_user \<Rightarrow> (Await (CreateTeamFindEvent en current_user team_data), d))"
| "db_step (CreateTeamFindEvent en current_user team_data) d =
     (let event = find (\<lambda>event. e_id event = tc_event_id team_data) (events d) in
      if event = None \<or> e_status (the event) \<notin> set [ACTIVE, SUBMISSIONS_OPEN]
      then (Raise (HTTPException 400 ''Event not available for registration''), d)
      else (Await (CreateTeamFindExisting en current_user team_data), d))"
| "db_step (CreateTeamFindExisting en current_user team_data) d =
     (let existing_team =
            find (\<lambda>team. t_event_id team = tc_event_id team_data
                          \<and> (t_leader_id team = u_id current_user
                             \<or> u_id current_user \<in> set (t_members team)))
                 (teams d) in
      if existing_team \<noteq> None
      then (Raise (HTTPException 400 ''Already part of a team for this event''), d)
      else
        (let team = \<lparr>t_id = uuid4 en, t_name = tc_name team_data,
                      t_event_id = tc_event_id team_data,
                      t_leader_id = u_id current_user,
                      t_members = [u_id current_user],
                      t_created_at = utcnow en\<rparr>
         in (Await (CreateTeamInsert team), d)))"
| "db_step (CreateTeamInsert team) d = (Return, d\<lparr>teams := teams d @ [team]\<rparr>)"
| "db_step (CreateSubmission en credentials submission_data team_id) d =
     (case require_role [PARTICIPANT] en d credentials of
        Inl e \<Rightarrow> (Raise e, d)
      | Inr current_user \<Rightarrow>
          (Await (CreateSubmissionFindTeam en current_user submission_data team_id), d))"
| "db_step (CreateSubmissionFindTeam en current_user submission_data team_id) d =
     (let team = find (\<lambda>team. t_id team = team_id) (teams d) in
      if team = None \<or> u_id current_user \<notin> set (t_members (the team))
      then (Raise (HTTPException 403 ''Not a member of this team''), d)
      else (Await (CreateSubmissionFindEvent en submission_data team_id (the team)), d))"
| "db_step (CreateSubmissionFindEvent en submission_data team_id team) d =
     (let event = find (\<lambda>event. e_id event = t_event_id team) (events d) in
      if event = None \<or> e_status (the event) \<notin> set [SUBMISSIONS_OPEN]
      then (Raise (HTTPException 400 ''Submissions not open for this event''), d)
      else (Await (CreateSubmissionFindExisting en submission_data team_id team), d))"
| "db_step (CreateSubmissionFindExisting en submission_data team_id team) d =
     (let existing =
            find (\<lambda>sub. s_team_id sub = team_id \<and> s_event_id sub = t_event_id team)
                 (submissions d) in
      if existing \<noteq> None
      then (Raise (HTTPException 400 ''Submission already exists for this team''), d)
      else
        (let submission =
               \<lparr>s_id = uuid4 en, s_team_id = team_id,
                s_event_id = t_event_id team,
                s_title = sc_title submission_data,
                s_description = sc_description submission_data,
                s_github_url = sc_github_url submission_data,
                s_demo_url = sc_demo_url submission_data,
                s_video_url = sc_video_url submission_data,
                s_submitted_at = utcnow en\<rparr>
         in (Await (CreateSubmissionInsert submission), d)))"
| "db_step (CreateSubmissionInsert submission) d =
     (Return, d\<lparr>submissions := submissions d @ [submission]\<rparr>)"

text \<open>A request arrives at the first database call of its route.\<close>

fun is_request :: "task \<Rightarrow> bool" where
  "is_request (Register en user_data) = True"
| "is_request (CreateEvent en credentials event_data) = True"
| "is_request (UpdateEventStatus en credentials event_id status) = True"
| "is_request (CreateTeam en credentials team_data) = True"
| "is_request (CreateSubmission en credentials submission_data team_id) = True"
| "is_request t = False"

text \<open>The database together with the requests in flight. Any request in flight may make
  its next database call; the others wait.\<close>

inductive running :: "db \<Rightarrow> task list \<Rightarrow> bool" where
  start: "running empty_db []"
| arrive: "running d ts \<Longrightarrow> is_request t \<Longrightarrow> running d (t # ts)"
| advance:
    "running d (ts1 @ t # ts2) \<Longrightarrow> db_step t d = (Await t', d') \<Longrightarrow>
     running d' (ts1 @ t' # ts2)"
| fail:
    "running d (ts1 @ t # ts2) \<Longrightarrow> db_step t d = (Raise e, d') \<Longrightarrow> running d' (ts1 @ ts2)"
| finish:
    "running d (ts1 @ t # ts2) \<Longrightarrow> db_step t d = (Return, d') \<Longrightarrow> running d' (ts1 @ ts2)"

text \<open>The databases the routes can build from the empty one, with requests overlapping in
  any way.\<close>

definition reachable :: "db \<Rightarrow> bool" where
  "reachable d \<longleftrightarrow> (\<exists>ts. running d ts)"

text \<open>One request run for at most \<open>n\<close> database calls with no other request in between,
  and the outcome of a route as \<open>db_step\<close> reports it.\<close>

fun exec :: "nat \<Rightarrow> task \<Rightarrow> db \<Rightarrow> outcome \<times> db" where
  "exec 0 t d = (Await t, d)"
| "exec (Suc n) t d =
     (case db_step t d of
        (Await t', d') \<Rightarrow> exec n t' d'
      | (Raise e, d') \<Rightarrow> (Raise e, d')
      | (Return, d') \<Rightarrow> (Return, d'))"

definition answer :: "(error + 'a) \<times> db \<Rightarrow> outcome \<times> db" where
  "answer r = (case fst r of Inl e \<Rightarrow> Raise e | Inr response \<Rightarrow> Return, snd r)"

text \<open>The team that a request in flight is about to insert.\<close>

fun team_of_task :: "task \<Rightarrow> Team option" where
  "team_of_task (CreateTeamInsert team) = Some team"
| "team_of_task t = None"

section \<open>Specification vocabulary\<close>

text \<open>The teams of an event that an identity is on, as leader or as member (the query of
  \<open>create_team\<close>), and the submissions of a team for an event (the query of
  \<open>create_submission\<close>).\<close>

definition teams_of :: "db \<Rightarrow> string \<Rightarrow> string \<Rightarrow> Team list" where
  "teams_of d user_id event_id =
     filter (\<lambda>team. t_event_id team = event_id
                     \<and> (t_leader_id team = user_id \<or> user_id \<in> set (t_members team)))
            (teams d)"

definition submissions_of :: "db \<Rightarrow> string \<Rightarrow> string \<Rightarrow> Submission list" where
  "submissions_of d team_id event_id =
     filter (\<lambda>sub. s_team_id sub = team_id \<and> s_event_id sub = event_id) (submissions d)"

text \<open>The condition under which \<open>create_team\<close> passes its first check, and the one under
  which \<open>create_submission\<close> passes its second.\<close>

definition event_has_status :: "db \<Rightarrow> string \<Rightarrow> EventStatus list \<Rightarrow> bool" where
  "event_has_status d event_id allowed =
     (case find (\<lambda>event. e_id event = event_id) (events d) of
        None \<Rightarrow> False
      | Some event \<Rightarrow> e_status event \<in> set allowed)"

text \<open>The same database with every event's \<open>max_team_size\<close> replaced.\<close>

definition with_max_team_size :: "(string \<Rightarrow> int) \<Rightarrow> db \<Rightarrow> db" where
  "with_max_team_size f d =
     d\<lparr>events := map (\<lambda>event. event\<lparr>e_max_team_size := f (e_id event)\<rparr>) (events d)\<rparr>"

section \<open>A run of the routes\<close>

text \<open>The scenario of the specification, used for the concrete runs below: an organizer and
  a participant register, the organizer creates an event and opens it, the participant
  creates a team, the organizer opens submissions, the participant submits, the organizer
  closes submissions. \<open>hashpw\<close> and \<open>checkpw\<close> are a stand-in with the interface of
  bcrypt.\<close>

definition ex_env :: "datetime \<Rightarrow> string \<Rightarrow> env" where
  "ex_env now new_id =
     \<lparr>JWT_SECRET = ''secret'', utcnow = now, uuid4 = new_id, gensalt = ''salt'',
      hashpw = (\<lambda>pw salt. salt @ pw),
      checkpw = (\<lambda>pw hashed. Some (hashed = ''salt'' @ pw))\<rparr>"

definition organizer :: User where
  "organizer = \<lparr>u_id = ''o1'', u_email = ''o@x.com'', u_name = ''O'', u_role = ORGANIZER,
     u_created_at = 1, u_is_active = True\<rparr>"

definition participant :: User where
  "participant = \<lparr>u_id = ''p1'', u_email = ''p@x.com'', u_name = ''P'', u_role = PARTICIPANT,
     u_created_at = 2, u_is_active = True\<rparr>"

definition organizer_token :: token where
  "organizer_token = create_jwt_token (ex_env 3 []) (User_dict organizer)"

definition participant_token :: token where
  "participant_token = create_jwt_token (ex_env 3 []) (User_dict participant)"

definition event_create :: EventCreate where
  "event_create = \<lparr>ec_title = ''E'', ec_description = [], ec_start_date = 100,
     ec_end_date = 200, ec_submission_deadline = 150, ec_max_team_size = 4,
     ec_tracks = [], ec_prizes = [], ec_rules = []\<rparr>"

definition submission_create :: SubmissionCreate where
  "submission_create = \<lparr>sc_title = ''S'', sc_description = [], sc_github_url = None,
     sc_demo_url = None, sc_video_url = None\<rparr>"

definition db_registered :: db where
  "db_registered =
     snd (register (ex_env 2 ''p1'')
            (snd (register (ex_env 1 ''o1'') empty_db
                    \<lparr>uc_email = ''o@x.com'', uc_name = ''O'', uc_password = ''pw1'',
                     uc_role = ORGANIZER\<rparr>))
            \<lparr>uc_email = ''p@x.com'', uc_name = ''P'', uc_password = ''pw2'',
             uc_role = PARTICIPANT\<rparr>)"

definition db_event_draft :: db where
  "db_event_draft = snd (create_event (ex_env 4 ''e1'') db_registered organizer_token event_create)"

definition db_event_active :: db where
  "db_event_active =
     snd (update_event_status (ex_env 5 []) db_event_draft organizer_token ''e1'' ACTIVE)"

definition db_team :: db where
  "db_team =
     snd (create_team (ex_env 6 ''t1'') db_event_active participant_token
            \<lparr>tc_name = ''T'', tc_event_id = ''e1''\<rparr>)"

definition db_submissions_open :: db where
  "db_submissions_open =
     snd (update_event_status (ex_env 7 []) db_team organizer_token ''e1'' SUBMISSIONS_OPEN)"

definition db_submitted :: db where
  "db_submitted =
     snd (create_submission (ex_env 8 ''s1'') db_submissions_open participant_token
            submission_create ''t1'')"

definition db_submissions_closed :: db where
  "db_submissions_closed =
     snd (update_event_status (ex_env 9 []) db_submitted organizer_token ''e1''
            SUBMISSIONS_CLOSED)"

text \<open>The registered accounts, deactivated in the store by hand (no route sets
  \<open>is_active\<close> to \<open>False\<close>).\<close>

definition db_deactivated :: db where
  "db_deactivated =
     db_registered\<lparr>users := map (\<lambda>doc. doc\<lparr>u_is_active := False\<rparr>) (users db_registered)\<rparr>"

text \<open>The documents that the run stores.\<close>

definition registered_users :: "UserDoc list" where
  "registered_users =
     [\<lparr>u_id = ''o1'', u_email = ''o@x.com'', u_name = ''O'', u_role = ORGANIZER,
       u_created_at = 1, u_is_active = True, password = ''saltpw1''\<rparr>,
      \<lparr>u_id = ''p1'', u_email = ''p@x.com'', u_name = ''P'', u_role = PARTICIPANT,
       u_created_at = 2, u_is_active = True, password = ''saltpw2''\<rparr>]"

definition event_e1 :: "EventStatus \<Rightarrow> Event" where
  "event_e1 st = \<lparr>e_id = ''e1'', e_title = ''E'', e_description = [],
     e_organizer_id = ''o1'', e_status = st, e_start_date = 100, e_end_date = 200,
     e_submission_deadline = 150, e_max_team_size = 4, e_tracks = [], e_prizes = [],
     e_rules = [], e_created_at = 4\<rparr>"

definition team_t1 :: Team where
  "team_t1 = \<lparr>t_id = ''t1'', t_name = ''T'', t_event_id = ''e1'', t_leader_id = ''p1'',
     t_members = [''p1''], t_created_at = 6\<rparr>"

definition submission_s1 :: Submission where
  "submission_s1 = \<lparr>s_id = ''s1'', s_team_id = ''t1'', s_event_id = ''e1'', s_title = ''S'',
     s_description = [], s_github_url = None, s_demo_url = None, s_video_url = None,
     s_submitted_at = 8\<rparr>"

text \<open>Two overlapping requests of the participant: a second \<open>create_team\<close> while the
  first waits at its insert, and likewise a second \<open>create_submission\<close>.\<close>

definition team_t2 :: Team where
  "team_t2 = \<lparr>t_id = ''t2'', t_name = ''T2'', t_event_id = ''e1'', t_leader_id = ''p1'',
     t_members = [''p1''], t_created_at = 6\<rparr>"

definition submission_s2 :: Submission where
  "submission_s2 = \<lparr>s_id = ''s2'', s_team_id = ''t1'', s_event_id = ''e1'', s_title = ''S'',
     s_description = [], s_github_url = None, s_demo_url = None, s_video_url = None,
     s_submitted_at = 8\<rparr>"

definition db_team_raced :: db where
  "db_team_raced =
     \<lparr>users = registered_users, events = [event_e1 ACTIVE], teams = [team_t1, team_t2],
      submissions = []\<rparr>"

definition db_submitted_raced :: db where
  "db_submitted_raced =
     \<lparr>users = registered_users, events = [event_e1 SUBMISSIONS_OPEN], teams = [team_t1],
      submissions = [submission_s1, submission_s2]\<rparr>"

text \<open>A password on which \<open>verify_password\<close> raises (it stands for the string of the one
  code point U+D800, which \<^verbatim>\<open>encode('utf-8')\<close> refuses), and the stand-in for bcrypt
  with that case.\<close>

definition unencodable :: string where
  "unencodable = ''<U+D800>''"

definition ex_env_raising :: "datetime \<Rightarrow> string \<Rightarrow> env" where
  "ex_env_raising now new_id =
     (ex_env now new_id)
       \<lparr>checkpw := (\<lambda>pw hashed. if pw = unencodable then None
                                   else Some (hashed = ''salt'' @ pw))\<rparr>"

section \<open>Lemmas about the guard\<close>

lemma require_role_ok:
  "get_current_user en d c = Inr u \<Longrightarrow> u_role u \<in> set rs \<Longrightarrow> require_role rs en d c = Inr u"
  by (simp add: require_role_def role_checker_def)

lemma require_role_forbidden:
  "get_current_user en d c = Inr u \<Longrightarrow> u_role u \<notin> set rs \<Longrightarrow>
   require_role rs en d c = Inl (HTTPException 403 ''Insufficient permissions'')"
  by (simp add: require_role_def role_checker_def)

lemma get_current_user_users:
  "users d' = users d \<Longrightarrow> get_current_user en d' c = get_current_user en d c"
  by (simp add: get_current_user_def get_current_user_try_def Let_def
      split: sum.splits option.splits)

lemma require_role_users:
  "users d' = users d \<Longrightarrow> require_role rs en d' c = require_role rs en d c"
  by (simp add: require_role_def get_current_user_users [of d' d])

section \<open>Lemmas about the collections\<close>

lemma find_filter_None: "find P xs = None \<longleftrightarrow> filter P xs = []"
  by (induction xs) auto

lemma find_map_key:
  "(\<And>x. P (g x) = P x) \<Longrightarrow> find P (map g xs) = map_option g (find P xs)"
  by (induction xs) auto

lemma update_one_map:
  "(\<And>x. P (g x) = P x) \<Longrightarrow> (\<And>x. h (g x) = g (h x)) \<Longrightarrow>
   update_one P h (map g xs) = map g (update_one P h xs)"
  by (induction xs) auto

text \<open>With distinct keys, updating the first document of a key updates the only one.\<close>

lemma update_one_distinct:
  "distinct (map key xs) \<Longrightarrow>
   update_one (\<lambda>x. key x = k) f xs = map (\<lambda>x. if key x = k then f x else x) xs"
proof (induction xs)
  case Nil
  then show ?case by simp
next
  case (Cons x xs)
  show ?case
  proof (cases "key x = k")
    case True
    then have "k \<notin> key ` set xs" using Cons.prems by simp
    then have "\<forall>y \<in> set xs. key y \<noteq> k" by blast
    then have "map (\<lambda>x. if key x = k then f x else x) xs = xs"
      by (simp add: map_idI)
    then show ?thesis using True by simp
  next
    case False
    then show ?thesis using Cons by simp
  qed
qed

text \<open>Which route writes which collection.\<close>

lemma teams_register [simp]: "teams (snd (register en d x)) = teams d"
  by (simp add: register_def Let_def split: option.splits)

lemma teams_create_event [simp]: "teams (snd (create_event en d c x)) = teams d"
  by (simp add: create_event_def Let_def split: sum.splits)

lemma teams_update_event_status [simp]: "teams (snd (update_event_status en d c i s)) = teams d"
  by (simp add: update_event_status_def split: sum.splits option.splits)

lemma teams_create_submission [simp]: "teams (snd (create_submission en d c x i)) = teams d"
  by (simp add: create_submission_def Let_def split: sum.splits)

lemma submissions_register [simp]: "submissions (snd (register en d x)) = submissions d"
  by (simp add: register_def Let_def split: option.splits)

lemma submissions_create_event [simp]:
  "submissions (snd (create_event en d c x)) = submissions d"
  by (simp add: create_event_def Let_def split: sum.splits)

lemma submissions_update_event_status [simp]:
  "submissions (snd (update_event_status en d c i s)) = submissions d"
  by (simp add: update_event_status_def split: sum.splits option.splits)

lemma submissions_create_team [simp]:
  "submissions (snd (create_team en d c x)) = submissions d"
  by (simp add: create_team_def Let_def split: sum.splits)

text \<open>What \<open>create_team\<close> does to the teams, and \<open>create_submission\<close> to the
  submissions: nothing, or one document appended after the query found none.\<close>

lemma create_team_teams:
  "teams (snd (create_team en d c td)) = teams d \<or>
   (\<exists>team u. teams (snd (create_team en d c td)) = teams d @ [team] \<and>
      t_event_id team = tc_event_id td \<and> t_leader_id team = u \<and> t_members team = [u] \<and>
      teams_of d u (tc_event_id td) = [])"
  by (simp add: create_team_def Let_def teams_of_def find_filter_None split: sum.splits)

lemma create_submission_submissions:
  "submissions (snd (create_submission en d c sd i)) = submissions d \<or>
   (\<exists>sub e. submissions (snd (create_submission en d c sd i)) = submissions d @ [sub] \<and>
      s_team_id sub = i \<and> s_event_id sub = e \<and> submissions_of d i e = [])"
  by (simp add: create_submission_def Let_def submissions_of_def find_filter_None
      split: sum.splits)

lemma teams_of_step:
  assumes "length (teams_of d u e) \<le> 1"
  shows "length (teams_of (snd (create_team en d c td)) u e) \<le> 1"
proof -
  consider (same) "teams (snd (create_team en d c td)) = teams d"
    | (new) team cu where "teams (snd (create_team en d c td)) = teams d @ [team]"
        "t_event_id team = tc_event_id td" "t_leader_id team = cu" "t_members team = [cu]"
        "teams_of d cu (tc_event_id td) = []"
    using create_team_teams [of en d c td] by blast
  then show ?thesis
  proof cases
    case same
    then show ?thesis using assms by (simp add: teams_of_def)
  next
    case new
    show ?thesis
    proof (cases "u = cu \<and> e = tc_event_id td")
      case True
      then show ?thesis using new by (simp add: teams_of_def)
    next
      case False
      then have "teams_of (snd (create_team en d c td)) u e = teams_of d u e"
        using new by (auto simp: teams_of_def)
      then show ?thesis using assms by simp
    qed
  qed
qed

lemma sequential_teams_of: "sequential d \<Longrightarrow> length (teams_of d u e) \<le> 1"
proof (induction rule: sequential.induct)
  case init
  then show ?case by (simp add: teams_of_def empty_db_def)
next
  case (step_create_team d en credentials team_data)
  from step_create_team.IH show ?case by (rule teams_of_step)
qed (simp_all add: teams_of_def)

lemma submissions_of_step:
  assumes "length (submissions_of d t e) \<le> 1"
  shows "length (submissions_of (snd (create_submission en d c sd i)) t e) \<le> 1"
proof -
  consider (same) "submissions (snd (create_submission en d c sd i)) = submissions d"
    | (new) sub e' where
        "submissions (snd (create_submission en d c sd i)) = submissions d @ [sub]"
        "s_team_id sub = i" "s_event_id sub = e'" "submissions_of d i e' = []"
    using create_submission_submissions [of en d c sd i] by blast
  then show ?thesis
  proof cases
    case same
    then show ?thesis using assms by (simp add: submissions_of_def)
  next
    case new
    show ?thesis
    proof (cases "t = i \<and> e = e'")
      case True
      then show ?thesis using new by (simp add: submissions_of_def)
    next
      case False
      then have "submissions_of (snd (create_submission en d c sd i)) t e
                   = submissions_of d t e"
        using new by (auto simp: submissions_of_def)
      then show ?thesis using assms by simp
    qed
  qed
qed

lemma sequential_submissions_of: "sequential d \<Longrightarrow> length (submissions_of d t e) \<le> 1"
proof (induction rule: sequential.induct)
  case init
  then show ?case by (simp add: submissions_of_def empty_db_def)
next
  case (step_create_submission d en credentials submission_data team_id)
  from step_create_submission.IH show ?case by (rule submissions_of_step)
qed (simp_all add: submissions_of_def)

section \<open>Lemmas about overlapping requests\<close>

lemma running_exec:
  "running d (ts1 @ t # ts2) \<Longrightarrow> exec n t d = (r, d') \<Longrightarrow>
   running d' (ts1 @ (case r of Await t' \<Rightarrow> [t'] | Raise e \<Rightarrow> [] | Return \<Rightarrow> []) @ ts2)"
proof (induction n arbitrary: t d)
  case 0
  then show ?case by auto
next
  case (Suc n)
  obtain r1 d1 where s: "db_step t d = (r1, d1)" by (cases "db_step t d")
  show ?case
  proof (cases r1)
    case (Await t1)
    then have "running d1 (ts1 @ t1 # ts2)"
      using Suc.prems(1) s by (auto intro: running.advance)
    moreover have "exec n t1 d1 = (r, d')"
      using Suc.prems(2) s Await by simp
    ultimately show ?thesis by (rule Suc.IH)
  next
    case (Raise e)
    then have "running d1 (ts1 @ ts2)"
      using Suc.prems(1) s by (auto intro: running.fail)
    then show ?thesis using Suc.prems(2) s Raise by auto
  next
    case Return
    then have "running d1 (ts1 @ ts2)"
      using Suc.prems(1) s by (auto intro: running.finish)
    then show ?thesis using Suc.prems(2) s Return by auto
  qed
qed

text \<open>A route is its database calls made with no other request in between.\<close>

lemma exec_register:
  "exec (Suc (Suc 0)) (Register en user_data) d = answer (register en d user_data)"
  by (simp add: register_def answer_def Let_def split: option.splits)

lemma exec_create_event:
  "exec (Suc (Suc 0)) (CreateEvent en c event_data) d = answer (create_event en d c event_data)"
  by (simp add: create_event_def answer_def Let_def split: sum.splits)

lemma exec_update_event_status:
  "exec (Suc (Suc (Suc 0))) (UpdateEventStatus en c event_id status) d
     = answer (update_event_status en d c event_id status)"
  by (simp add: update_event_status_def answer_def split: sum.splits option.splits)

lemma exec_create_team:
  "exec (Suc (Suc (Suc (Suc 0)))) (CreateTeam en c team_data) d
     = answer (create_team en d c team_data)"
  by (auto simp: create_team_def answer_def Let_def split: sum.splits)

lemma exec_create_submission:
  "exec (Suc (Suc (Suc (Suc (Suc 0))))) (CreateSubmission en c submission_data team_id) d
     = answer (create_submission en d c submission_data team_id)"
  by (simp add: create_submission_def answer_def Let_def split: sum.splits)

lemma running_answer:
  assumes "running d ts" and "is_request t" and "exec n t d = answer r"
  shows "running (snd r) ts"
proof -
  have "running d ([] @ t # ts)" using assms(1,2) by (simp add: running.arrive)
  moreover have "exec n t d = (fst (answer r), snd r)"
    using assms(3) by (simp add: answer_def)
  ultimately have "running (snd r)
      ([] @ (case fst (answer r) of Await t' \<Rightarrow> [t'] | Raise e \<Rightarrow> [] | Return \<Rightarrow> []) @ ts)"
    by (rule running_exec)
  then show ?thesis by (simp add: answer_def split: sum.splits)
qed

text \<open>Requests that run one after the other are a special case of requests that
  overlap.\<close>

lemma sequential_running: "sequential d \<Longrightarrow> running d []"
proof (induction rule: sequential.induct)
  case init
  then show ?case by (rule running.start)
next
  case (step_register d en user_data)
  then show ?case by (auto intro: running_answer [OF _ _ exec_register])
next
  case (step_create_event d en credentials event_data)
  then show ?case by (auto intro: running_answer [OF _ _ exec_create_event])
next
  case (step_update_event_status d en credentials event_id status)
  then show ?case by (auto intro: running_answer [OF _ _ exec_update_event_status])
next
  case (step_create_team d en credentials team_data)
  then show ?case by (auto intro: running_answer [OF _ _ exec_create_team])
next
  case (step_create_submission d en credentials submission_data team_id)
  then show ?case by (auto intro: running_answer [OF _ _ exec_create_submission])
qed

lemma sequential_reachable: "sequential d \<Longrightarrow> reachable d"
  using sequential_running by (auto simp: reachable_def)

text \<open>Every team in the database, or about to be inserted by a request in flight, has its
  leader as only member, however the requests overlap.\<close>

lemma db_step_teams:
  assumes "db_step t d = (r, d')"
    and "\<forall>team. team_of_task t = Some team \<longrightarrow> t_members team = [t_leader_id team]"
  shows "(set (teams d') \<subseteq> set (teams d) \<union> {team. team_of_task t = Some team}) \<and>
         (\<forall>t' team. r = Await t' \<longrightarrow> team_of_task t' = Some team \<longrightarrow>
            t_members team = [t_leader_id team])"
  using assms
  by (cases t) (auto simp: Let_def split: sum.splits option.splits if_splits)

lemma is_request_no_team: "is_request t \<Longrightarrow> team_of_task t = None"
  by (cases t) simp_all

lemma running_members:
  "running d ts \<Longrightarrow>
   (\<forall>team \<in> set (teams d). t_members team = [t_leader_id team]) \<and>
   (\<forall>t \<in> set ts. \<forall>team. team_of_task t = Some team \<longrightarrow> t_members team = [t_leader_id team])"
proof (induction rule: running.induct)
  case start
  then show ?case by (simp add: empty_db_def)
next
  case (arrive d ts t)
  then show ?case by (auto simp: is_request_no_team)
next
  case (advance d ts1 t ts2 t' d')
  then have "\<forall>team. team_of_task t = Some team \<longrightarrow> t_members team = [t_leader_id team]"
    by simp
  from db_step_teams [OF advance.hyps(2) this] advance.IH show ?case by auto
next
  case (fail d ts1 t ts2 e d')
  then have "\<forall>team. team_of_task t = Some team \<longrightarrow> t_members team = [t_leader_id team]"
    by simp
  from db_step_teams [OF fail.hyps(2) this] fail.IH show ?case by auto
next
  case (finish d ts1 t ts2 d')
  then have "\<forall>team. team_of_task t = Some team \<longrightarrow> t_members team = [t_leader_id team]"
    by simp
  from db_step_teams [OF finish.hyps(2) this] finish.IH show ?case by auto
qed

lemma reachable_members:
  "reachable d \<Longrightarrow> \<forall>team \<in> set (teams d). t_members team = [t_leader_id team]"
  using running_members by (auto simp: reachable_def)

section \<open>The routes do not read \<open>max_team_size\<close>\<close>

lemma with_max_team_size_simps [simp]:
  "users (with_max_team_size f d) = users d"
  "teams (with_max_team_size f d) = teams d"
  "submissions (with_max_team_size f d) = submissions d"
  by (simp_all add: with_max_team_size_def)

lemma find_event_with_max_team_size:
  "find (\<lambda>event. e_id event = i) (events (with_max_team_size f d))
     = map_option (\<lambda>event. event\<lparr>e_max_team_size := f (e_id event)\<rparr>)
         (find (\<lambda>event. e_id event = i) (events d))"
  by (simp add: with_max_team_size_def find_map_key)

lemma create_team_with_max_team_size:
  "create_team en (with_max_team_size f d) c td
     = (fst (create_team en d c td), with_max_team_size f (snd (create_team en d c td)))"
proof (cases "require_role [PARTICIPANT] en d c")
  case (Inl e)
  then show ?thesis
    by (simp add: create_team_def require_role_users [of "with_max_team_size f d" d])
next
  case (Inr u)
  then have rr: "require_role [PARTICIPANT] en (with_max_team_size f d) c = Inr u"
    by (simp add: require_role_users [of "with_max_team_size f d" d])
  show ?thesis
  proof (cases "find (\<lambda>event. e_id event = tc_event_id td) (events d)")
    case None
    then show ?thesis using Inr rr
      by (simp add: create_team_def find_event_with_max_team_size)
  next
    case (Some ev)
    then show ?thesis using Inr rr
      by (simp add: create_team_def find_event_with_max_team_size Let_def)
        (simp add: with_max_team_size_def)
  qed
qed

lemma create_submission_with_max_team_size:
  "create_submission en (with_max_team_size f d) c sd i
     = (fst (create_submission en d c sd i),
        with_max_team_size f (snd (create_submission en d c sd i)))"
proof (cases "require_role [PARTICIPANT] en d c")
  case (Inl e)
  then show ?thesis
    by (simp add: create_submission_def require_role_users [of "with_max_team_size f d" d])
next
  case (Inr u)
  then have rr: "require_role [PARTICIPANT] en (with_max_team_size f d) c = Inr u"
    by (simp add: require_role_users [of "with_max_team_size f d" d])
  show ?thesis
  proof (cases "find (\<lambda>team. t_id team = i) (teams d)")
    case None
    then show ?thesis using Inr rr by (simp add: create_submission_def)
  next
    case team: (Some team)
    show ?thesis
    proof (cases "find (\<lambda>event. e_id event = t_event_id team) (events d)")
      case None
      then show ?thesis using Inr rr team
        by (simp add: create_submission_def find_event_with_max_team_size Let_def)
    next
      case (Some ev)
      then show ?thesis using Inr rr team
        by (simp add: create_submission_def find_event_with_max_team_size Let_def)
          (simp add: with_max_team_size_def)
    qed
  qed
qed

lemma update_event_status_with_max_team_size:
  "update_event_status en (with_max_team_size f d) c i s
     = (fst (update_event_status en d c i s),
        with_max_team_size f (snd (update_event_status en d c i s)))"
proof (cases "require_role [ORGANIZER] en d c")
  case (Inl e)
  then show ?thesis
    by (simp add: update_event_status_def require_role_users [of "with_max_team_size f d" d])
next
  case (Inr u)
  then have rr: "require_role [ORGANIZER] en (with_max_team_size f d) c = Inr u"
    by (simp add: require_role_users [of "with_max_team_size f d" d])
  have f: "find (\<lambda>event. e_id event = i \<and> e_organizer_id event = u_id u)
             (events (with_max_team_size f d))
           = map_option (\<lambda>event. event\<lparr>e_max_team_size := f (e_id event)\<rparr>)
               (find (\<lambda>event. e_id event = i \<and> e_organizer_id event = u_id u) (events d))"
    by (simp add: with_max_team_size_def find_map_key)
  show ?thesis
  proof (cases "find (\<lambda>event. e_id event = i \<and> e_organizer_id event = u_id u) (events d)")
    case None
    then show ?thesis using Inr rr f by (simp add: update_event_status_def)
  next
    case (Some ev)
    then show ?thesis using Inr rr f
      by (simp add: update_event_status_def)
        (simp add: with_max_team_size_def update_one_map)
  qed
qed

section \<open>Facts about the run\<close>



lemma db_registered_eq:
  "db_registered = \<lparr>users = registered_users, events = [], teams = [], submissions = []\<rparr>"
  by (simp add: db_registered_def register_def empty_db_def ex_env_def hash_password_def
      Let_def registered_users_def)

lemma token_claims:
  "claims organizer_token ''id'' = Some (PStr ''o1'')"
  "claims participant_token ''id'' = Some (PStr ''p1'')"
  by (simp_all add: organizer_token_def participant_token_def create_jwt_token_def
      jwt_encode_def User_dict_def organizer_def participant_def Let_def)

lemma decode_examples:
  "now < 86403 \<Longrightarrow> decode_jwt_token (ex_env now i) organizer_token = Inr (claims organizer_token)"
  "now < 86403 \<Longrightarrow> decode_jwt_token (ex_env now i) participant_token = Inr (claims participant_token)"
  by (simp_all add: decode_jwt_token_def jwt_decode_def organizer_token_def
      participant_token_def create_jwt_token_def jwt_encode_def ex_env_def
      JWT_EXPIRATION_HOURS_def timedelta_hours_def Let_def)

lemma auth_organizer:
  assumes "users d = registered_users" "now < 86403"
  shows "get_current_user (ex_env now i) d organizer_token = Inr organizer"
  using assms
  by (simp add: get_current_user_def get_current_user_try_def decode_examples token_claims
      registered_users_def User_of_def organizer_def)

lemma auth_participant:
  assumes "users d = registered_users" "now < 86403"
  shows "get_current_user (ex_env now i) d participant_token = Inr participant"
  using assms
  by (simp add: get_current_user_def get_current_user_try_def decode_examples token_claims
      registered_users_def User_of_def participant_def)

lemma role_organizer:
  assumes "users d = registered_users" "now < 86403"
  shows "require_role [ORGANIZER] (ex_env now i) d organizer_token = Inr organizer"
  using auth_organizer [OF assms] by (simp add: require_role_ok organizer_def)

lemma role_participant:
  assumes "users d = registered_users" "now < 86403"
  shows "require_role [PARTICIPANT] (ex_env now i) d participant_token = Inr participant"
  using auth_participant [OF assms] by (simp add: require_role_ok participant_def)

lemma db_event_draft_eq:
  "db_event_draft =
     \<lparr>users = registered_users, events = [event_e1 DRAFT], teams = [], submissions = []\<rparr>"
  by (simp add: db_event_draft_def create_event_def db_registered_eq role_organizer
      event_create_def event_e1_def organizer_def)
    (simp add: ex_env_def Let_def)

lemma db_event_active_eq:
  "db_event_active =
     \<lparr>users = registered_users, events = [event_e1 ACTIVE], teams = [], submissions = []\<rparr>"
  by (simp add: db_event_active_def update_event_status_def db_event_draft_eq role_organizer
      event_e1_def organizer_def)

lemma db_team_eq:
  "db_team =
     \<lparr>users = registered_users, events = [event_e1 ACTIVE], teams = [team_t1],
      submissions = []\<rparr>"
  by (simp add: db_team_def create_team_def db_event_active_eq role_participant
      event_e1_def team_t1_def participant_def)
    (simp add: ex_env_def Let_def)

lemma db_submissions_open_eq:
  "db_submissions_open =
     \<lparr>users = registered_users, events = [event_e1 SUBMISSIONS_OPEN], teams = [team_t1],
      submissions = []\<rparr>"
  by (simp add: db_submissions_open_def update_event_status_def db_team_eq role_organizer
      event_e1_def organizer_def)

lemma db_submitted_eq:
  "db_submitted =
     \<lparr>users = registered_users, events = [event_e1 SUBMISSIONS_OPEN], teams = [team_t1],
      submissions = [submission_s1]\<rparr>"
  by (simp add: db_submitted_def create_submission_def db_submissions_open_eq
      role_participant event_e1_def team_t1_def participant_def submission_s1_def
      submission_create_def)
    (simp add: ex_env_def Let_def)

lemma db_submissions_closed_eq:
  "db_submissions_closed =
     \<lparr>users = registered_users, events = [event_e1 SUBMISSIONS_CLOSED], teams = [team_t1],
      submissions = [submission_s1]\<rparr>"
  by (simp add: db_submissions_closed_def update_event_status_def db_submitted_eq
      role_organizer event_e1_def organizer_def)

lemma sequential_run:
  "sequential db_registered" "sequential db_event_draft" "sequential db_event_active"
  "sequential db_team" "sequential db_submissions_open" "sequential db_submitted"
  "sequential db_submissions_closed"
  unfolding db_registered_def db_event_draft_def db_event_active_def db_team_def
    db_submissions_open_def db_submitted_def db_submissions_closed_def
  by (intro sequential.intros)+

lemma reachable_run:
  "reachable db_registered" "reachable db_event_draft" "reachable db_event_active"
  "reachable db_team" "reachable db_submissions_open" "reachable db_submitted"
  "reachable db_submissions_closed"
  by (simp_all add: sequential_reachable sequential_run)

text \<open>Two \<open>create_team\<close> requests of the participant overlap: both find no team before
  either inserts. The same for two \<open>create_submission\<close> requests.\<close>

lemma exec_team_checks:
  "exec (Suc (Suc (Suc 0)))
     (CreateTeam (ex_env 6 i) participant_token \<lparr>tc_name = n, tc_event_id = ''e1''\<rparr>)
     db_event_active
   = (Await (CreateTeamInsert
        \<lparr>t_id = i, t_name = n, t_event_id = ''e1'', t_leader_id = ''p1'',
         t_members = [''p1''], t_created_at = 6\<rparr>), db_event_active)"
proof -
  have "require_role [PARTICIPANT] (ex_env 6 i) db_event_active participant_token
          = Inr participant"
    by (simp add: role_participant db_event_active_eq)
  then show ?thesis
    by simp (simp add: db_event_active_eq event_e1_def participant_def ex_env_def Let_def)
qed

lemma reachable_db_team_raced: "reachable db_team_raced"
proof -
  let ?B = "CreateTeam (ex_env 6 ''t2'') participant_token
              \<lparr>tc_name = ''T2'', tc_event_id = ''e1''\<rparr>"
  have "running db_event_active []"
    by (rule sequential_running [OF sequential_run(3)])
  then have "running db_event_active
      ([] @ CreateTeam (ex_env 6 ''t1'') participant_token
              \<lparr>tc_name = ''T'', tc_event_id = ''e1''\<rparr> # [?B])"
    by (simp add: running.arrive)
  from running_exec [OF this exec_team_checks]
  have "running db_event_active ([CreateTeamInsert team_t1] @ ?B # [])"
    by (simp add: team_t1_def)
  from running_exec [OF this exec_team_checks]
  have "running db_event_active ([] @ CreateTeamInsert team_t1 # [CreateTeamInsert team_t2])"
    by (simp add: team_t2_def)
  then have "running (db_event_active\<lparr>teams := teams db_event_active @ [team_t1]\<rparr>)
      ([] @ CreateTeamInsert team_t2 # [])"
    using running.finish [of db_event_active "[]" "CreateTeamInsert team_t1"
        "[CreateTeamInsert team_t2]"
        "db_event_active\<lparr>teams := teams db_event_active @ [team_t1]\<rparr>"]
    by simp
  then have "running (db_event_active\<lparr>teams := teams db_event_active @ [team_t1, team_t2]\<rparr>) []"
    using running.finish [of "db_event_active\<lparr>teams := teams db_event_active @ [team_t1]\<rparr>"
        "[]" "CreateTeamInsert team_t2" "[]"
        "db_event_active\<lparr>teams := teams db_event_active @ [team_t1, team_t2]\<rparr>"]
    by simp
  then show ?thesis
    by (auto simp: reachable_def db_team_raced_def db_event_active_eq)
qed

lemma exec_submission_checks:
  "exec (Suc (Suc (Suc (Suc 0))))
     (CreateSubmission (ex_env 8 i) participant_token submission_create ''t1'')
     db_submissions_open
   = (Await (CreateSubmissionInsert
        \<lparr>s_id = i, s_team_id = ''t1'', s_event_id = ''e1'', s_title = ''S'',
         s_description = [], s_github_url = None, s_demo_url = None, s_video_url = None,
         s_submitted_at = 8\<rparr>), db_submissions_open)"
proof -
  have "require_role [PARTICIPANT] (ex_env 8 i) db_submissions_open participant_token
          = Inr participant"
    by (simp add: role_participant db_submissions_open_eq)
  then show ?thesis
    by simp (simp add: db_submissions_open_eq event_e1_def team_t1_def participant_def
        submission_create_def ex_env_def Let_def)
qed

lemma reachable_db_submitted_raced: "reachable db_submitted_raced"
proof -
  let ?B = "CreateSubmission (ex_env 8 ''s2'') participant_token submission_create ''t1''"
  have "running db_submissions_open []"
    by (rule sequential_running [OF sequential_run(5)])
  then have "running db_submissions_open
      ([] @ CreateSubmission (ex_env 8 ''s1'') participant_token submission_create ''t1''
          # [?B])"
    by (simp add: running.arrive)
  from running_exec [OF this exec_submission_checks]
  have "running db_submissions_open ([CreateSubmissionInsert submission_s1] @ ?B # [])"
    by (simp add: submission_s1_def)
  from running_exec [OF this exec_submission_checks]
  have "running db_submissions_open
      ([] @ CreateSubmissionInsert submission_s1 # [CreateSubmissionInsert submission_s2])"
    by (simp add: submission_s2_def)
  then have "running
      (db_submissions_open\<lparr>submissions := submissions db_submissions_open @ [submission_s1]\<rparr>)
      ([] @ CreateSubmissionInsert submission_s2 # [])"
    using running.finish [of db_submissions_open "[]" "CreateSubmissionInsert submission_s1"
        "[CreateSubmissionInsert submission_s2]"
        "db_submissions_open
           \<lparr>submissions := submissions db_submissions_open @ [submission_s1]\<rparr>"]
    by simp
  then have "running
      (db_submissions_open
         \<lparr>submissions := submissions db_submissions_open @ [submission_s1, submission_s2]\<rparr>) []"
    using running.finish [of
        "db_submissions_open
           \<lparr>submissions := submissions db_submissions_open @ [submission_s1]\<rparr>"
        "[]" "CreateSubmissionInsert submission_s2" "[]"
        "db_submissions_open
           \<lparr>submissions := submissions db_submissions_open @ [submission_s1, submission_s2]\<rparr>"]
    by simp
  then show ?thesis
    by (auto simp: reachable_def db_submitted_raced_def db_submissions_open_eq)
qed

section \<open>The claims\<close>

text \<open>C1 (as amended). For every token that validates and carries a non-empty id,
  \<open>get_current_user\<close> fetches the user document of that id again: when there is none it
  fails with the 401 authentication error, and when there is one it returns that user,
  deactivated (\<open>is_active\<close> false) or not.\<close>

theorem get_current_user_refetch:
  assumes "decode_jwt_token en tok = Inr payload" and "truthy (payload ''id'')"
  shows "(find (\<lambda>doc. Some (PStr (u_id doc)) = payload ''id'') (users d) = None \<longrightarrow>
           get_current_user en d tok = Inl (HTTPException 401 ''Invalid authentication'')) \<and>
         (\<forall>doc. find (\<lambda>doc. Some (PStr (u_id doc)) = payload ''id'') (users d) = Some doc \<longrightarrow>
           get_current_user en d tok = Inr (User_of doc))"
  using assms by (simp add: get_current_user_def get_current_user_try_def)

theorem get_current_user_refetch_witness:
  "decode_jwt_token (ex_env 10 []) participant_token = Inr (claims participant_token) \<and>
   truthy (claims participant_token ''id'') \<and>
   find (\<lambda>doc. Some (PStr (u_id doc)) = claims participant_token ''id'') (users empty_db) = None \<and>
   get_current_user (ex_env 10 []) empty_db participant_token
     = Inl (HTTPException 401 ''Invalid authentication'') \<and>
   find (\<lambda>doc. Some (PStr (u_id doc)) = claims participant_token ''id'') (users db_registered)
     = Some (registered_users ! 1) \<and>
   get_current_user (ex_env 10 []) db_registered participant_token
     = Inr (User_of (registered_users ! 1))"
proof -
  have dec: "decode_jwt_token (ex_env 10 []) participant_token = Inr (claims participant_token)"
    by (simp add: decode_examples)
  have tr: "truthy (claims participant_token ''id'')"
    by (simp add: token_claims)
  have none: "find (\<lambda>doc. Some (PStr (u_id doc)) = claims participant_token ''id'')
                (users empty_db) = None"
    by (simp add: empty_db_def)
  have some: "find (\<lambda>doc. Some (PStr (u_id doc)) = claims participant_token ''id'')
                (users db_registered) = Some (registered_users ! 1)"
    by (simp add: db_registered_eq registered_users_def token_claims)
  show ?thesis
    using get_current_user_refetch [OF dec tr, of empty_db]
      get_current_user_refetch [OF dec tr, of db_registered] dec tr none some
    by simp
qed

theorem deactivated_identity_accepted:
  "map u_is_active (users db_deactivated) = [False, False] \<and>
   get_current_user (ex_env 10 []) db_deactivated participant_token
     = Inr (participant\<lparr>u_is_active := False\<rparr>) \<and>
   fst (get_current_user_info (ex_env 10 []) db_deactivated participant_token)
     = Inr (UserResponse_of participant)"
  by (simp add: db_deactivated_def db_registered_eq registered_users_def
      get_current_user_info_def get_current_user_def get_current_user_try_def
      decode_examples token_claims User_of_def participant_def UserResponse_of_def)

text \<open>C2. An expired token and a malformed one are told apart by \<open>decode_jwt_token\<close>
  (``Token expired'' against ``Invalid token''), but \<open>get_current_user\<close> answers both
  with the same ``Invalid authentication'': its handler catches the errors of its own
  body.\<close>

theorem expired_token_not_distinguished:
  "decode_jwt_token (ex_env 86404 []) participant_token
     = Inl (HTTPException 401 ''Token expired'') \<and>
   decode_jwt_token (ex_env 86404 []) (Malformed ''x'')
     = Inl (HTTPException 401 ''Invalid token'') \<and>
   get_current_user (ex_env 86404 []) db_registered participant_token
     = Inl (HTTPException 401 ''Invalid authentication'') \<and>
   get_current_user (ex_env 86404 []) db_registered (Malformed ''x'')
     = Inl (HTTPException 401 ''Invalid authentication'')"
  by (simp add: get_current_user_def get_current_user_try_def decode_jwt_token_def
      jwt_decode_def participant_token_def create_jwt_token_def jwt_encode_def ex_env_def
      JWT_EXPIRATION_HOURS_def timedelta_hours_def Let_def)

text \<open>C3 (as amended). In a store whose event ids are distinct, for an authenticated
  caller: an organizer sets the status of every event they own to every target status,
  with no check of the current status, and only that event changes; an organizer who owns
  no event of the given id (the id does not exist, or its event belongs to someone else)
  gets the one 404 error; a caller of any other role gets 403 before any event is looked
  up. The store is unchanged by every failure.\<close>

theorem update_event_status_owner_only:
  assumes "get_current_user en d credentials = Inr u"
    and "distinct (map e_id (events d))"
  shows "(u_role u = ORGANIZER \<longrightarrow>
            (\<forall>ev \<in> set (events d). e_organizer_id ev = u_id u \<longrightarrow>
               update_event_status en d credentials (e_id ev) status
                 = (Inr ''Event status updated successfully'',
                    d\<lparr>events := map (\<lambda>event. if e_id event = e_id ev
                                              then event\<lparr>e_status := status\<rparr> else event)
                                     (events d)\<rparr>)) \<and>
            ((\<forall>ev \<in> set (events d). e_id ev = event_id \<longrightarrow> e_organizer_id ev \<noteq> u_id u) \<longrightarrow>
               update_event_status en d credentials event_id status
                 = (Inl (HTTPException 404 ''Event not found or unauthorized''), d))) \<and>
         (u_role u \<noteq> ORGANIZER \<longrightarrow>
            update_event_status en d credentials event_id status
              = (Inl (HTTPException 403 ''Insufficient permissions''), d))"
proof (intro conjI impI)
  assume role: "u_role u = ORGANIZER"
  have rr: "require_role [ORGANIZER] en d credentials = Inr u"
    using assms(1) role by (simp add: require_role_ok)
  show "\<forall>ev \<in> set (events d). e_organizer_id ev = u_id u \<longrightarrow>
          update_event_status en d credentials (e_id ev) status
            = (Inr ''Event status updated successfully'',
               d\<lparr>events := map (\<lambda>event. if e_id event = e_id ev
                                         then event\<lparr>e_status := status\<rparr> else event)
                                (events d)\<rparr>)"
  proof (intro ballI impI)
    fix ev
    assume that: "ev \<in> set (events d)" "e_organizer_id ev = u_id u"
    have "find (\<lambda>event. e_id event = e_id ev \<and> e_organizer_id event = u_id u) (events d)
            \<noteq> None"
      using that by (auto simp: find_None_iff)
    then show "update_event_status en d credentials (e_id ev) status
            = (Inr ''Event status updated successfully'',
               d\<lparr>events := map (\<lambda>event. if e_id event = e_id ev
                                         then event\<lparr>e_status := status\<rparr> else event)
                                (events d)\<rparr>)"
      using rr assms(2) by (auto simp: update_event_status_def update_one_distinct)
  qed
  show "update_event_status en d credentials event_id status
          = (Inl (HTTPException 404 ''Event not found or unauthorized''), d)"
    if "\<forall>ev \<in> set (events d). e_id ev = event_id \<longrightarrow> e_organizer_id ev \<noteq> u_id u"
  proof -
    have "find (\<lambda>event. e_id event = event_id \<and> e_organizer_id event = u_id u) (events d)
            = None"
      using that by (auto simp: find_None_iff)
    then show ?thesis using rr by (simp add: update_event_status_def)
  qed
next
  assume "u_role u \<noteq> ORGANIZER"
  then show "update_event_status en d credentials event_id status
          = (Inl (HTTPException 403 ''Insufficient permissions''), d)"
    using assms(1) by (simp add: update_event_status_def require_role_forbidden)
qed

theorem update_event_status_owner_only_witness:
  "get_current_user (ex_env 20 []) db_submissions_closed organizer_token = Inr organizer \<and>
   u_role organizer = ORGANIZER \<and>
   distinct (map e_id (events db_submissions_closed)) \<and>
   event_e1 SUBMISSIONS_CLOSED \<in> set (events db_submissions_closed) \<and>
   e_organizer_id (event_e1 SUBMISSIONS_CLOSED) = u_id organizer \<and>
   update_event_status (ex_env 20 []) db_submissions_closed organizer_token ''e1'' DRAFT
     = (Inr ''Event status updated successfully'',
        db_submissions_closed\<lparr>events := [event_e1 DRAFT]\<rparr>) \<and>
   update_event_status (ex_env 20 []) db_submissions_closed organizer_token ''e2'' DRAFT
     = (Inl (HTTPException 404 ''Event not found or unauthorized''), db_submissions_closed) \<and>
   map e_organizer_id (events (db_submissions_closed
       \<lparr>events := [(event_e1 ACTIVE)\<lparr>e_organizer_id := ''o2''\<rparr>]\<rparr>)) = [''o2''] \<and>
   update_event_status (ex_env 20 [])
       (db_submissions_closed\<lparr>events := [(event_e1 ACTIVE)\<lparr>e_organizer_id := ''o2''\<rparr>]\<rparr>)
       organizer_token ''e1'' DRAFT
     = (Inl (HTTPException 404 ''Event not found or unauthorized''),
        db_submissions_closed\<lparr>events := [(event_e1 ACTIVE)\<lparr>e_organizer_id := ''o2''\<rparr>]\<rparr>) \<and>
   get_current_user (ex_env 20 []) db_submissions_closed participant_token = Inr participant \<and>
   u_role participant \<noteq> ORGANIZER \<and>
   update_event_status (ex_env 20 []) db_submissions_closed participant_token ''e1'' DRAFT
     = (Inl (HTTPException 403 ''Insufficient permissions''), db_submissions_closed)"
proof -
  have a: "get_current_user (ex_env 20 []) db_submissions_closed organizer_token = Inr organizer"
    by (simp add: auth_organizer db_submissions_closed_eq)
  have a': "get_current_user (ex_env 20 [])
              (db_submissions_closed\<lparr>events := [(event_e1 ACTIVE)\<lparr>e_organizer_id := ''o2''\<rparr>]\<rparr>)
              organizer_token = Inr organizer"
    by (simp add: auth_organizer db_submissions_closed_eq)
  have p: "get_current_user (ex_env 20 []) db_submissions_closed participant_token
             = Inr participant"
    by (simp add: auth_participant db_submissions_closed_eq)
  have r: "u_role organizer = ORGANIZER" "u_role participant \<noteq> ORGANIZER"
    by (simp_all add: organizer_def participant_def)
  have di: "distinct (map e_id (events db_submissions_closed))"
    by (simp add: db_submissions_closed_eq)
  have di': "distinct (map e_id (events (db_submissions_closed
               \<lparr>events := [(event_e1 ACTIVE)\<lparr>e_organizer_id := ''o2''\<rparr>]\<rparr>)))"
    by simp
  show ?thesis
    using update_event_status_owner_only [OF a di, of DRAFT "''e2''"]
      update_event_status_owner_only [OF a' di', of DRAFT "''e1''"]
      update_event_status_owner_only [OF p di, of DRAFT "''e1''"] a p r di
    by (simp add: db_submissions_closed_eq event_e1_def organizer_def)
qed

theorem update_event_status_other_role:
  "get_current_user (ex_env 20 []) db_submissions_closed participant_token = Inr participant \<and>
   map e_id (events db_submissions_closed) = [''e1''] \<and>
   map e_organizer_id (events db_submissions_closed) = [''o1''] \<and>
   u_id participant = ''p1'' \<and>
   update_event_status (ex_env 20 []) db_submissions_closed participant_token ''e1'' DRAFT
     = (Inl (HTTPException 403 ''Insufficient permissions''), db_submissions_closed) \<and>
   update_event_status (ex_env 20 []) db_submissions_closed participant_token ''e2'' DRAFT
     = (Inl (HTTPException 403 ''Insufficient permissions''), db_submissions_closed)"
proof -
  have p: "get_current_user (ex_env 20 []) db_submissions_closed participant_token
             = Inr participant"
    by (simp add: auth_participant db_submissions_closed_eq)
  then have "require_role [ORGANIZER] (ex_env 20 []) db_submissions_closed participant_token
               = Inl (HTTPException 403 ''Insufficient permissions'')"
    by (simp add: require_role_forbidden participant_def)
  then show ?thesis
    using p
    by (simp add: update_event_status_def)
      (simp add: db_submissions_closed_eq event_e1_def participant_def)
qed

text \<open>C4. \<open>login\<close> answers a wrong password for a stored email and any password for an
  unknown email with the same 401 ``Invalid credentials'', but only when
  \<open>verify_password\<close> returns. It is called for a stored email alone and outside any
  handler, so a password on which it raises gives an unhandled error for a stored email
  and still 401 for an unknown one: the answers tell whether the email is stored.\<close>

theorem login_reveals_stored_email:
  "login (ex_env_raising 3 []) db_registered \<lparr>ul_email = ''p@x.com'', ul_password = ''bad''\<rparr>
     = (Inl (HTTPException 401 ''Invalid credentials''), db_registered) \<and>
   login (ex_env_raising 3 []) db_registered \<lparr>ul_email = ''n@x.com'', ul_password = ''bad''\<rparr>
     = (Inl (HTTPException 401 ''Invalid credentials''), db_registered) \<and>
   login (ex_env_raising 3 []) db_registered
       \<lparr>ul_email = ''p@x.com'', ul_password = unencodable\<rparr>
     = (Inl ValueError, db_registered) \<and>
   login (ex_env_raising 3 []) db_registered
       \<lparr>ul_email = ''n@x.com'', ul_password = unencodable\<rparr>
     = (Inl (HTTPException 401 ''Invalid credentials''), db_registered)"
  by (simp add: login_def verify_password_def db_registered_eq registered_users_def
      ex_env_raising_def ex_env_def unencodable_def)

text \<open>C5. A token issued for a user, decoded with the same secret less than 24 hours
  (86400 seconds) after it was issued, gives a payload with the user's id and role, and
  its \<open>exp\<close> claim is the time of issue plus 24 hours.\<close>

theorem token_round_trip:
  assumes "JWT_SECRET en' = JWT_SECRET en" and "utcnow en' < utcnow en + 24 * 3600"
  shows "\<exists>payload. decode_jwt_token en' (create_jwt_token en (User_dict u)) = Inr payload \<and>
           payload ''id'' = Some (PStr (u_id u)) \<and>
           payload ''role'' = Some (PStr (role_value (u_role u))) \<and>
           payload ''exp'' = Some (PInt (utcnow en + 24 * 3600))"
  using assms
  by (simp add: decode_jwt_token_def create_jwt_token_def jwt_encode_def jwt_decode_def
      User_dict_def JWT_EXPIRATION_HOURS_def timedelta_hours_def Let_def)

theorem token_round_trip_witness:
  "JWT_SECRET (ex_env 86402 []) = JWT_SECRET (ex_env 3 []) \<and>
   utcnow (ex_env 86402 []) < utcnow (ex_env 3 []) + 24 * 3600 \<and>
   (\<exists>payload. decode_jwt_token (ex_env 86402 []) participant_token = Inr payload \<and>
      payload ''id'' = Some (PStr ''p1'') \<and>
      payload ''role'' = Some (PStr ''participant'') \<and>
      payload ''exp'' = Some (PInt 86403))"
proof -
  have s: "JWT_SECRET (ex_env 86402 []) = JWT_SECRET (ex_env 3 [])"
    by (simp add: ex_env_def)
  have t: "utcnow (ex_env 86402 []) < utcnow (ex_env 3 []) + 24 * 3600"
    by (simp add: ex_env_def)
  show ?thesis
    using token_round_trip [OF s t, of participant] s t
    by (simp add: participant_token_def participant_def ex_env_def)
qed

text \<open>C6. For an authenticated participant who is on no team of the event, and an event
  that exists: \<open>create_team\<close> succeeds exactly when the event's status is \<open>ACTIVE\<close> or
  \<open>SUBMISSIONS_OPEN\<close>, and then appends one team whose leader is the caller and whose
  members are the caller alone; for each of the other four statuses it fails with 400
  ``Event not available for registration'' and leaves the store as it is.\<close>

theorem create_team_lifecycle_gating:
  assumes "get_current_user en d credentials = Inr u" and "u_role u = PARTICIPANT"
    and "find (\<lambda>event. e_id event = tc_event_id team_data) (events d) = Some ev"
    and "teams_of d (u_id u) (tc_event_id team_data) = []"
  shows "(e_status ev \<in> {ACTIVE, SUBMISSIONS_OPEN} \<longrightarrow>
            (\<exists>team. create_team en d credentials team_data
                      = (Inr team, d\<lparr>teams := teams d @ [team]\<rparr>) \<and>
                    t_leader_id team = u_id u \<and> t_members team = [u_id u] \<and>
                    t_event_id team = tc_event_id team_data)) \<and>
         (e_status ev \<in> {DRAFT, SUBMISSIONS_CLOSED, JUDGING, COMPLETED} \<longrightarrow>
            create_team en d credentials team_data
              = (Inl (HTTPException 400 ''Event not available for registration''), d))"
proof -
  have rr: "require_role [PARTICIPANT] en d credentials = Inr u"
    using assms(1,2) by (simp add: require_role_ok)
  have none: "find (\<lambda>team. t_event_id team = tc_event_id team_data
                     \<and> (t_leader_id team = u_id u \<or> u_id u \<in> set (t_members team)))
                (teams d) = None"
    using assms(4) by (simp add: find_filter_None teams_of_def)
  show ?thesis
    using rr none assms(3) by (auto simp: create_team_def Let_def)
qed

theorem create_team_lifecycle_gating_witness:
  "get_current_user (ex_env 6 ''t1'') db_event_active participant_token = Inr participant \<and>
   u_role participant = PARTICIPANT \<and>
   find (\<lambda>event. e_id event = ''e1'') (events db_event_active) = Some (event_e1 ACTIVE) \<and>
   teams_of db_event_active (u_id participant) ''e1'' = [] \<and>
   e_status (event_e1 ACTIVE) \<in> {ACTIVE, SUBMISSIONS_OPEN} \<and>
   (\<exists>team. create_team (ex_env 6 ''t1'') db_event_active participant_token
              \<lparr>tc_name = ''T'', tc_event_id = ''e1''\<rparr>
            = (Inr team, db_event_active\<lparr>teams := teams db_event_active @ [team]\<rparr>) \<and>
          t_leader_id team = ''p1'' \<and> t_members team = [''p1'']) \<and>
   e_status (event_e1 DRAFT) \<in> {DRAFT, SUBMISSIONS_CLOSED, JUDGING, COMPLETED} \<and>
   create_team (ex_env 6 ''t1'') db_event_draft participant_token
       \<lparr>tc_name = ''T'', tc_event_id = ''e1''\<rparr>
     = (Inl (HTTPException 400 ''Event not available for registration''), db_event_draft)"
proof -
  have a: "get_current_user (ex_env 6 ''t1'') db_event_active participant_token = Inr participant"
    by (simp add: auth_participant db_event_active_eq)
  have a': "get_current_user (ex_env 6 ''t1'') db_event_draft participant_token = Inr participant"
    by (simp add: auth_participant db_event_draft_eq)
  have r: "u_role participant = PARTICIPANT" by (simp add: participant_def)
  have f: "find (\<lambda>event. e_id event = tc_event_id \<lparr>tc_name = ''T'', tc_event_id = ''e1''\<rparr>)
             (events db_event_active) = Some (event_e1 ACTIVE)"
    by (simp add: db_event_active_eq event_e1_def)
  have f': "find (\<lambda>event. e_id event = tc_event_id \<lparr>tc_name = ''T'', tc_event_id = ''e1''\<rparr>)
             (events db_event_draft) = Some (event_e1 DRAFT)"
    by (simp add: db_event_draft_eq event_e1_def)
  have t: "teams_of db_event_active (u_id participant)
             (tc_event_id \<lparr>tc_name = ''T'', tc_event_id = ''e1''\<rparr>) = []"
    by (simp add: teams_of_def db_event_active_eq)
  have t': "teams_of db_event_draft (u_id participant)
             (tc_event_id \<lparr>tc_name = ''T'', tc_event_id = ''e1''\<rparr>) = []"
    by (simp add: teams_of_def db_event_draft_eq)
  have s: "e_status (event_e1 ACTIVE) \<in> {ACTIVE, SUBMISSIONS_OPEN}"
    "e_status (event_e1 DRAFT) \<in> {DRAFT, SUBMISSIONS_CLOSED, JUDGING, COMPLETED}"
    by (simp_all add: event_e1_def)
  show ?thesis
    using create_team_lifecycle_gating [OF a r f t] create_team_lifecycle_gating [OF a' r f' t']
      a r f t s
    by (simp add: participant_def event_e1_def) blast
qed

text \<open>C7 (as amended). In every store built by requests that do not overlap, each
  identity is on at most one team per event, as leader or as member; requests that overlap
  can break this, since \<open>create_team\<close> gives way between its check and its insert. A
  \<open>create_team\<close> call of an authenticated participant who is already on a team of that
  event fails and leaves the store as it is: with 400 ``Already part of a team for this
  event'' when the event exists with status \<open>ACTIVE\<close> or \<open>SUBMISSIONS_OPEN\<close>, and with
  400 ``Event not available for registration'' otherwise, since the status is checked
  first.\<close>

theorem one_team_per_event:
  assumes "sequential d"
  shows "length (teams_of d user_id event_id) \<le> 1 \<and>
         (get_current_user en d credentials = Inr u \<and> u_role u = PARTICIPANT \<and>
          teams_of d (u_id u) (tc_event_id team_data) \<noteq> [] \<longrightarrow>
            create_team en d credentials team_data
              = (Inl (HTTPException 400
                   (if event_has_status d (tc_event_id team_data) [ACTIVE, SUBMISSIONS_OPEN]
                    then ''Already part of a team for this event''
                    else ''Event not available for registration'')), d))"
proof (intro conjI impI)
  show "length (teams_of d user_id event_id) \<le> 1"
    using assms by (rule sequential_teams_of)
next
  assume h: "get_current_user en d credentials = Inr u \<and> u_role u = PARTICIPANT \<and>
             teams_of d (u_id u) (tc_event_id team_data) \<noteq> []"
  then have rr: "require_role [PARTICIPANT] en d credentials = Inr u"
    by (simp add: require_role_ok)
  have some: "find (\<lambda>team. t_event_id team = tc_event_id team_data
                     \<and> (t_leader_id team = u_id u \<or> u_id u \<in> set (t_members team)))
                (teams d) \<noteq> None"
    using h by (simp add: find_filter_None teams_of_def)
  show "create_team en d credentials team_data
          = (Inl (HTTPException 400
               (if event_has_status d (tc_event_id team_data) [ACTIVE, SUBMISSIONS_OPEN]
                then ''Already part of a team for this event''
                else ''Event not available for registration'')), d)"
    using rr some
    by (auto simp: create_team_def event_has_status_def Let_def split: option.splits)
qed

theorem one_team_per_event_witness:
  "sequential db_team \<and>
   length (teams_of db_team ''p1'' ''e1'') \<le> 1 \<and>
   get_current_user (ex_env 10 ''t2'') db_team participant_token = Inr participant \<and>
   u_role participant = PARTICIPANT \<and>
   teams_of db_team (u_id participant) ''e1'' \<noteq> [] \<and>
   create_team (ex_env 10 ''t2'') db_team participant_token
       \<lparr>tc_name = ''T2'', tc_event_id = ''e1''\<rparr>
     = (Inl (HTTPException 400 ''Already part of a team for this event''), db_team)"
proof -
  have a: "get_current_user (ex_env 10 ''t2'') db_team participant_token = Inr participant"
    by (simp add: auth_participant db_team_eq)
  have r: "u_role participant = PARTICIPANT" by (simp add: participant_def)
  have t: "teams_of db_team (u_id participant)
             (tc_event_id \<lparr>tc_name = ''T2'', tc_event_id = ''e1''\<rparr>) \<noteq> []"
    by (simp add: teams_of_def db_team_eq team_t1_def participant_def)
  have e: "event_has_status db_team ''e1'' [ACTIVE, SUBMISSIONS_OPEN]"
    by (simp add: event_has_status_def db_team_eq event_e1_def)
  show ?thesis
    using one_team_per_event [OF sequential_run(4), of "''p1''" "''e1''" "ex_env 10 ''t2''"
        participant_token participant "\<lparr>tc_name = ''T2'', tc_event_id = ''e1''\<rparr>"]
      sequential_run(4) a r t e
    by simp
qed

theorem one_team_per_event_counterexample:
  "reachable db_team_raced \<and>
   teams_of db_team_raced ''p1'' ''e1'' = [team_t1, team_t2] \<and>
   length (teams_of db_team_raced ''p1'' ''e1'') = 2 \<and>
   reachable db_submissions_closed \<and>
   teams_of db_submissions_closed ''p1'' ''e1'' = [team_t1] \<and>
   create_team (ex_env 10 ''t2'') db_submissions_closed participant_token
       \<lparr>tc_name = ''T2'', tc_event_id = ''e1''\<rparr>
     = (Inl (HTTPException 400 ''Event not available for registration''),
        db_submissions_closed)"
proof -
  have "require_role [PARTICIPANT] (ex_env 10 ''t2'') db_submissions_closed participant_token
          = Inr participant"
    by (simp add: role_participant db_submissions_closed_eq)
  then have "teams_of db_submissions_closed ''p1'' ''e1'' = [team_t1] \<and>
     create_team (ex_env 10 ''t2'') db_submissions_closed participant_token
         \<lparr>tc_name = ''T2'', tc_event_id = ''e1''\<rparr>
       = (Inl (HTTPException 400 ''Event not available for registration''),
          db_submissions_closed)"
    by (simp add: create_team_def teams_of_def)
      (simp add: db_submissions_closed_eq event_e1_def team_t1_def)
  moreover have "teams_of db_team_raced ''p1'' ''e1'' = [team_t1, team_t2]"
    by (simp add: teams_of_def db_team_raced_def team_t1_def team_t2_def)
  ultimately show ?thesis
    using reachable_db_team_raced reachable_run(7) by simp
qed

text \<open>C8 (as amended). In every store built by requests that do not overlap there is at
  most one submission per team and event; requests that overlap can break this, since
  \<open>create_submission\<close> gives way between its check and its insert. A
  \<open>create_submission\<close> call of an authenticated participant for a team that
  already has a submission for its event fails and leaves the store as it is: with 403
  ``Not a member of this team'' when the caller is not a member, else with 400
  ``Submissions not open for this event'' unless the event has status
  \<open>SUBMISSIONS_OPEN\<close>, else with 400 ``Submission already exists for this team''. On
  success one submission is appended, for the given team, and its event id is the one of
  the team's document.\<close>

theorem one_submission_per_team:
  assumes "sequential d"
  shows "length (submissions_of d tid event_id) \<le> 1 \<and>
         (get_current_user en d credentials = Inr u \<and> u_role u = PARTICIPANT \<and>
          find (\<lambda>team. t_id team = team_id) (teams d) = Some team \<and>
          submissions_of d team_id (t_event_id team) \<noteq> [] \<longrightarrow>
            create_submission en d credentials submission_data team_id
              = (Inl (if u_id u \<notin> set (t_members team)
                      then HTTPException 403 ''Not a member of this team''
                      else if \<not> event_has_status d (t_event_id team) [SUBMISSIONS_OPEN]
                      then HTTPException 400 ''Submissions not open for this event''
                      else HTTPException 400 ''Submission already exists for this team''), d)) \<and>
         (\<forall>sub d'. create_submission en d credentials submission_data team_id = (Inr sub, d') \<longrightarrow>
            map_option t_event_id (find (\<lambda>team. t_id team = team_id) (teams d))
              = Some (s_event_id sub) \<and>
            s_team_id sub = team_id \<and> d' = d\<lparr>submissions := submissions d @ [sub]\<rparr>)"
proof (intro conjI impI allI)
  show "length (submissions_of d tid event_id) \<le> 1"
    using assms by (rule sequential_submissions_of)
next
  assume h: "get_current_user en d credentials = Inr u \<and> u_role u = PARTICIPANT \<and>
             find (\<lambda>team. t_id team = team_id) (teams d) = Some team \<and>
             submissions_of d team_id (t_event_id team) \<noteq> []"
  then have rr: "require_role [PARTICIPANT] en d credentials = Inr u"
    by (simp add: require_role_ok)
  have some: "find (\<lambda>sub. s_team_id sub = team_id \<and> s_event_id sub = t_event_id team)
                (submissions d) \<noteq> None"
    using h by (simp add: find_filter_None submissions_of_def)
  show "create_submission en d credentials submission_data team_id
          = (Inl (if u_id u \<notin> set (t_members team)
                  then HTTPException 403 ''Not a member of this team''
                  else if \<not> event_has_status d (t_event_id team) [SUBMISSIONS_OPEN]
                  then HTTPException 400 ''Submissions not open for this event''
                  else HTTPException 400 ''Submission already exists for this team''), d)"
    using rr some h
    by (auto simp: create_submission_def event_has_status_def Let_def split: option.splits)
next
  fix sub d'
  assume ok: "create_submission en d credentials submission_data team_id = (Inr sub, d')"
  then show "map_option t_event_id (find (\<lambda>team. t_id team = team_id) (teams d))
               = Some (s_event_id sub)"
    by (auto simp: create_submission_def Let_def split: sum.splits if_splits)
  from ok show "s_team_id sub = team_id"
    by (auto simp: create_submission_def Let_def split: sum.splits if_splits)
  from ok show "d' = d\<lparr>submissions := submissions d @ [sub]\<rparr>"
    by (auto simp: create_submission_def Let_def split: sum.splits if_splits)
qed

theorem one_submission_per_team_witness:
  "sequential db_submitted \<and>
   length (submissions_of db_submitted ''t1'' ''e1'') \<le> 1 \<and>
   get_current_user (ex_env 10 ''s2'') db_submitted participant_token = Inr participant \<and>
   u_role participant = PARTICIPANT \<and>
   find (\<lambda>team. t_id team = ''t1'') (teams db_submitted) = Some team_t1 \<and>
   submissions_of db_submitted ''t1'' (t_event_id team_t1) \<noteq> [] \<and>
   create_submission (ex_env 10 ''s2'') db_submitted participant_token submission_create ''t1''
     = (Inl (HTTPException 400 ''Submission already exists for this team''), db_submitted) \<and>
   sequential db_submissions_open \<and>
   create_submission (ex_env 8 ''s1'') db_submissions_open participant_token
       submission_create ''t1''
     = (Inr submission_s1, db_submitted) \<and>
   map_option t_event_id (find (\<lambda>team. t_id team = ''t1'') (teams db_submissions_open))
     = Some (s_event_id submission_s1)"
proof -
  have a: "get_current_user (ex_env 10 ''s2'') db_submitted participant_token = Inr participant"
    by (simp add: auth_participant db_submitted_eq)
  have r: "u_role participant = PARTICIPANT" by (simp add: participant_def)
  have f: "find (\<lambda>team. t_id team = ''t1'') (teams db_submitted) = Some team_t1"
    by (simp add: db_submitted_eq team_t1_def)
  have s: "submissions_of db_submitted ''t1'' (t_event_id team_t1) \<noteq> []"
    by (simp add: submissions_of_def db_submitted_eq team_t1_def submission_s1_def)
  have m: "u_id participant \<in> set (t_members team_t1)"
    by (simp add: participant_def team_t1_def)
  have e: "event_has_status db_submitted (t_event_id team_t1) [SUBMISSIONS_OPEN]"
    by (simp add: event_has_status_def db_submitted_eq event_e1_def team_t1_def)
  have rr: "require_role [PARTICIPANT] (ex_env 8 ''s1'') db_submissions_open participant_token
              = Inr participant"
    by (simp add: role_participant db_submissions_open_eq)
  have ok: "create_submission (ex_env 8 ''s1'') db_submissions_open participant_token
              submission_create ''t1'' = (Inr submission_s1, db_submitted)"
    using rr
    by (simp add: create_submission_def)
      (simp add: db_submissions_open_eq db_submitted_eq event_e1_def team_t1_def
        participant_def submission_s1_def submission_create_def ex_env_def Let_def)
  show ?thesis
    using one_submission_per_team [OF sequential_run(6), of "''t1''" "''e1''" "ex_env 10 ''s2''"
        participant_token participant "''t1''" team_t1 submission_create]
      one_submission_per_team [OF sequential_run(5), of "''t1''" "''e1''" "ex_env 8 ''s1''"
        participant_token participant "''t1''" team_t1 submission_create]
      sequential_run(5,6) a r f s m e ok
    by simp
qed

theorem one_submission_per_team_counterexample:
  "reachable db_submitted_raced \<and>
   submissions_of db_submitted_raced ''t1'' ''e1'' = [submission_s1, submission_s2] \<and>
   length (submissions_of db_submitted_raced ''t1'' ''e1'') = 2 \<and>
   reachable db_submissions_closed \<and>
   teams db_submissions_closed = [team_t1] \<and>
   submissions_of db_submissions_closed ''t1'' (t_event_id team_t1) = [submission_s1] \<and>
   create_submission (ex_env 10 ''s2'') db_submissions_closed participant_token
       submission_create ''t1''
     = (Inl (HTTPException 400 ''Submissions not open for this event''),
        db_submissions_closed)"
proof -
  have "require_role [PARTICIPANT] (ex_env 10 ''s2'') db_submissions_closed participant_token
          = Inr participant"
    by (simp add: role_participant db_submissions_closed_eq)
  then have "teams db_submissions_closed = [team_t1] \<and>
     submissions_of db_submissions_closed ''t1'' (t_event_id team_t1) = [submission_s1] \<and>
     create_submission (ex_env 10 ''s2'') db_submissions_closed participant_token
         submission_create ''t1''
       = (Inl (HTTPException 400 ''Submissions not open for this event''),
          db_submissions_closed)"
    by (simp add: create_submission_def submissions_of_def)
      (simp add: db_submissions_closed_eq event_e1_def team_t1_def submission_s1_def
        participant_def)
  moreover have "submissions_of db_submitted_raced ''t1'' ''e1''
                   = [submission_s1, submission_s2]"
    by (simp add: submissions_of_def db_submitted_raced_def submission_s1_def
        submission_s2_def)
  ultimately show ?thesis
    using reachable_db_submitted_raced reachable_run(7) by simp
qed

text \<open>C9. A caller whose token authenticates but whose role is not among those a route
  requires gets 403 ``Insufficient permissions'', never a 401, whatever the payload, and
  the store is unchanged: for the organizer routes \<open>create_event\<close>, \<open>get_my_events\<close> and
  \<open>update_event_status\<close>, and for the participant routes \<open>create_team\<close>,
  \<open>get_my_teams\<close> and \<open>create_submission\<close>.\<close>

theorem wrong_role_forbidden:
  assumes "get_current_user en d credentials = Inr u"
  shows "(u_role u \<notin> set required_roles \<longrightarrow>
            require_role required_roles en d credentials
              = Inl (HTTPException 403 ''Insufficient permissions'')) \<and>
         (u_role u \<noteq> ORGANIZER \<longrightarrow>
            create_event en d credentials event_data
              = (Inl (HTTPException 403 ''Insufficient permissions''), d) \<and>
            get_my_events en d credentials
              = (Inl (HTTPException 403 ''Insufficient permissions''), d) \<and>
            update_event_status en d credentials event_id status
              = (Inl (HTTPException 403 ''Insufficient permissions''), d)) \<and>
         (u_role u \<noteq> PARTICIPANT \<longrightarrow>
            create_team en d credentials team_data
              = (Inl (HTTPException 403 ''Insufficient permissions''), d) \<and>
            get_my_teams en d credentials
              = (Inl (HTTPException 403 ''Insufficient permissions''), d) \<and>
            create_submission en d credentials submission_data team_id
              = (Inl (HTTPException 403 ''Insufficient permissions''), d))"
  using assms
  by (simp add: require_role_forbidden create_event_def get_my_events_def
      update_event_status_def create_team_def get_my_teams_def create_submission_def)

theorem wrong_role_forbidden_witness:
  "get_current_user (ex_env 10 ''e2'') db_team participant_token = Inr participant \<and>
   u_role participant \<notin> set [ORGANIZER] \<and>
   require_role [ORGANIZER] (ex_env 10 ''e2'') db_team participant_token
     = Inl (HTTPException 403 ''Insufficient permissions'') \<and>
   create_event (ex_env 10 ''e2'') db_team participant_token event_create
     = (Inl (HTTPException 403 ''Insufficient permissions''), db_team) \<and>
   update_event_status (ex_env 10 ''e2'') db_team participant_token ''e1'' COMPLETED
     = (Inl (HTTPException 403 ''Insufficient permissions''), db_team) \<and>
   get_current_user (ex_env 10 ''t2'') db_team organizer_token = Inr organizer \<and>
   u_role organizer \<noteq> PARTICIPANT \<and>
   create_team (ex_env 10 ''t2'') db_team organizer_token
       \<lparr>tc_name = ''T2'', tc_event_id = ''e1''\<rparr>
     = (Inl (HTTPException 403 ''Insufficient permissions''), db_team)"
proof -
  have p: "get_current_user (ex_env 10 ''e2'') db_team participant_token = Inr participant"
    by (simp add: auth_participant db_team_eq)
  have ob: "get_current_user (ex_env 10 ''t2'') db_team organizer_token = Inr organizer"
    by (simp add: auth_organizer db_team_eq)
  have r: "u_role participant \<notin> set [ORGANIZER]" "u_role participant \<noteq> ORGANIZER"
    "u_role organizer \<noteq> PARTICIPANT"
    by (simp_all add: participant_def organizer_def)
  show ?thesis
    using wrong_role_forbidden [OF p, of "[ORGANIZER]" event_create "''e1''" COMPLETED]
      wrong_role_forbidden [OF ob, of "[PARTICIPANT]" event_create "''e1''" COMPLETED
        "\<lparr>tc_name = ''T2'', tc_event_id = ''e1''\<rparr>"]
      p ob r
    by simp
qed

text \<open>C10. In every reachable store, however the requests overlap, the members of every
  team are exactly its leader:
  \<open>create_team\<close> is the only route that writes teams (the other writing routes leave
  them as they are), and it stores the creator as the single member. No route reads \<open>max_team_size\<close>: replacing the field in every event
  changes neither the answer of \<open>create_team\<close>, \<open>create_submission\<close> or
  \<open>update_event_status\<close> nor what they write.\<close>

theorem team_members_only_leader:
  assumes "reachable d"
  shows "(\<forall>team \<in> set (teams d). t_members team = [t_leader_id team]) \<and>
         teams (snd (register en d user_data)) = teams d \<and>
         teams (snd (create_event en d c event_data)) = teams d \<and>
         teams (snd (update_event_status en d c event_id status)) = teams d \<and>
         teams (snd (create_submission en d c submission_data team_id)) = teams d \<and>
         create_team en (with_max_team_size f d) c team_data
           = (fst (create_team en d c team_data),
              with_max_team_size f (snd (create_team en d c team_data))) \<and>
         create_submission en (with_max_team_size f d) c submission_data team_id
           = (fst (create_submission en d c submission_data team_id),
              with_max_team_size f (snd (create_submission en d c submission_data team_id))) \<and>
         update_event_status en (with_max_team_size f d) c event_id status
           = (fst (update_event_status en d c event_id status),
              with_max_team_size f (snd (update_event_status en d c event_id status)))"
  using reachable_members [OF assms]
  by (simp add: create_team_with_max_team_size create_submission_with_max_team_size
      update_event_status_with_max_team_size)

theorem team_members_only_leader_witness:
  "reachable db_team \<and> team_t1 \<in> set (teams db_team) \<and>
   t_members team_t1 = [t_leader_id team_t1] \<and>
   events (with_max_team_size (\<lambda>i. 0) db_event_active)
     = [(event_e1 ACTIVE)\<lparr>e_max_team_size := 0\<rparr>] \<and>
   fst (create_team (ex_env 6 ''t1'') (with_max_team_size (\<lambda>i. 0) db_event_active)
          participant_token \<lparr>tc_name = ''T'', tc_event_id = ''e1''\<rparr>)
     = Inr team_t1"
proof -
  have m: "team_t1 \<in> set (teams db_team)" by (simp add: db_team_eq)
  have rr: "require_role [PARTICIPANT] (ex_env 6 ''t1'') db_event_active participant_token
              = Inr participant"
    by (simp add: role_participant db_event_active_eq)
  have ok: "fst (create_team (ex_env 6 ''t1'') db_event_active participant_token
                   \<lparr>tc_name = ''T'', tc_event_id = ''e1''\<rparr>) = Inr team_t1"
    using rr
    by (simp add: create_team_def)
      (simp add: db_event_active_eq event_e1_def team_t1_def participant_def ex_env_def Let_def)
  have ev: "events (with_max_team_size (\<lambda>i. 0) db_event_active)
              = [(event_e1 ACTIVE)\<lparr>e_max_team_size := 0\<rparr>]"
    by (simp add: with_max_team_size_def db_event_active_eq)
  show ?thesis
    using team_members_only_leader [OF reachable_run(4)]
      team_members_only_leader [OF reachable_run(3), where en = "ex_env 6 ''t1''"
        and f = "\<lambda>i. 0" and c = participant_token
        and team_data = "\<lparr>tc_name = ''T'', tc_event_id = ''e1''\<rparr>"]
      reachable_run(4) m ok ev
    by simp
qed

end
